theory Spec2Isabelle
  imports Complex_Main "HOL-Library.AList" "HOL-Library.Sublist"
    "HOL-Library.List_Lexorder" "HOL-Library.Char_ord"
begin

section \<open>JavaScript values, errors and the Lambda event\<close>

text \<open>
  The four handlers (createTodo, getTodos, updateTodo, deleteTodo) work on values that
  come out of \<^verbatim>\<open>JSON.parse\<close> or out of the table. An object keeps its properties
  in order, as an association list; a lookup takes the first entry of a name.
\<close>

datatype jsval =
    JUndefined
  | JNull
  | JBool bool
  | JNum rat
  | JStr string
  | JArr "jsval list"
  | JObj "(string \<times> jsval) list"

text \<open>What \<^verbatim>\<open>!v\<close> tests: undefined, null, false, 0 and the empty string are falsy.\<close>

fun truthy :: "jsval \<Rightarrow> bool" where
  "truthy JUndefined = False"
| "truthy JNull = False"
| "truthy (JBool b) = b"
| "truthy (JNum n) = (n \<noteq> 0)"
| "truthy (JStr s) = (s \<noteq> [])"
| "truthy (JArr xs) = True"
| "truthy (JObj kvs) = True"

text \<open>
  A thrown value: an Error object with its \<^verbatim>\<open>name\<close> and \<^verbatim>\<open>message\<close>.
  \<open>error_toString\<close> is \<^verbatim>\<open>Error.prototype.toString\<close>, which string concatenation
  (\<^verbatim>\<open>"..." + error\<close>) calls.
\<close>

datatype js_error = JsError (error_name: string) (error_message: string)

definition error_toString :: "js_error \<Rightarrow> string" where
  "error_toString err =
     (if error_name err = [] then error_message err
      else if error_message err = [] then error_name err
      else error_name err @ '': '' @ error_message err)"

text \<open>
  \<^verbatim>\<open>body[key]\<close> and \<^verbatim>\<open>body.key\<close>: reading a property of undefined or null throws a
  TypeError; an object yields the property or undefined; a boolean, number, string or
  array has none of the properties the handlers read (userID, title, description,
  status), so the read yields undefined.
\<close>

fun get_prop :: "jsval \<Rightarrow> string \<Rightarrow> js_error + jsval" where
  "get_prop JUndefined key =
     Inl (JsError ''TypeError'' (''Cannot read properties of undefined (reading '' @ key @ '')''))"
| "get_prop JNull key =
     Inl (JsError ''TypeError'' (''Cannot read properties of null (reading '' @ key @ '')''))"
| "get_prop (JObj kvs) key = Inr (case map_of kvs key of None \<Rightarrow> JUndefined | Some v \<Rightarrow> v)"
| "get_prop v key = Inr JUndefined"

text \<open>
  The event API Gateway hands to a handler. Path and query parameters are strings when
  present; either mapping may be missing altogether (null), and event.body is any value
  (a string under proxy integration, an object under the mapping template of the PUT
  route, undefined when the request has none).
\<close>

record event =
  pathParameters :: "(string \<rightharpoonup> string) option"
  queryStringParameters :: "(string \<rightharpoonup> string) option"
  body :: jsval

text \<open>\<^verbatim>\<open>params?.name\<close>: undefined when the mapping is missing or has no such entry.\<close>

definition param :: "(string \<rightharpoonup> string) option \<Rightarrow> string \<Rightarrow> jsval" where
  "param ps name =
     (case ps of None \<Rightarrow> JUndefined
      | Some m \<Rightarrow> (case m name of None \<Rightarrow> JUndefined | Some s \<Rightarrow> JStr s))"

text \<open>\<^verbatim>\<open>a || b\<close>.\<close>

definition js_or :: "jsval \<Rightarrow> jsval \<Rightarrow> jsval" where
  "js_or a b = (if truthy a then a else b)"

text \<open>
  A value inside a template literal (\<^verbatim>\<open>`...${v}...`\<close>). The handlers only interpolate
  path parameters, which are strings or undefined.
\<close>

definition template_str :: "jsval \<Rightarrow> string" where
  "template_str v = (case v of JStr s \<Rightarrow> s | _ \<Rightarrow> ''undefined'')"

text \<open>A text between single quotes.\<close>

definition quoted :: "string \<Rightarrow> string" where
  "quoted s = CHR 0x27 # s @ [CHR 0x27]"

text \<open>
  The response envelope. \<open>body_text\<close> holds the value whose JSON text the handler returns:
  \<open>JSON_stringify\<close> keeps the value and drops the properties of an object that are
  undefined, as the text does. (Values nested deeper come from \<^verbatim>\<open>JSON.parse\<close> or from
  the table and hold no undefined.)
\<close>

definition JSON_stringify :: "jsval \<Rightarrow> jsval" where
  "JSON_stringify v =
     (case v of JObj kvs \<Rightarrow> JObj (filter (\<lambda>kv. snd kv \<noteq> JUndefined) kvs) | _ \<Rightarrow> v)"

record response =
  statusCode :: nat
  headers :: "(string \<times> string) list option"
  body_text :: jsval

section \<open>The table store\<close>

text \<open>
  An item is a list of attributes; a table is the list of its items; the database maps a
  table name to its table. The primary key of the todos table is (userID, taskID).
  The order of the rows in a table and of the attributes in an item is the model's own;
  a query returns the items of a partition in the order of their sort key.
\<close>

type_synonym item = "(string \<times> jsval) list"
type_synonym table = "item list"
type_synonym database = "string \<rightharpoonup> table"

definition item_key :: "item \<Rightarrow> jsval option \<times> jsval option" where
  "item_key it = (map_of it ''userID'', map_of it ''taskID'')"

text \<open>The document client sends no attribute for an undefined value.\<close>

definition marshall :: "item \<Rightarrow> item" where
  "marshall it = filter (\<lambda>kv. snd kv \<noteq> JUndefined) it"

text \<open>PutItem: writes the item, replacing the one with the same key if there is one.\<close>

definition put_item :: "table \<Rightarrow> item \<Rightarrow> table" where
  "put_item rows it = filter (\<lambda>r. item_key r \<noteq> item_key it) rows @ [it]"

text \<open>
  Query with the key condition \<^verbatim>\<open>userID = :uid\<close> and nothing else, as getTodos
  sends it. \<open>partition_of\<close> is what the condition selects: the items of one partition.
  The service reads them in ascending order of the sort key taskID (strings compare by
  their bytes) and answers one call with one page: it stops before the item that would
  take the data read past 1 MB, and the rest of the partition is only to be had by a
  further call from the key it reports as LastEvaluatedKey.

  \<open>item_size\<close> is the size the service counts for an item: the length of each
  attribute name plus the size of its value, where a string counts its bytes, a boolean
  or null one byte, a number at most 21 bytes (counted here as 21), and a list or map 3
  bytes and one more for each element beside the elements themselves.
\<close>

fun value_size :: "jsval \<Rightarrow> nat" where
  "value_size JUndefined = 0"
| "value_size JNull = 1"
| "value_size (JBool b) = 1"
| "value_size (JNum n) = 21"
| "value_size (JStr s) = length s"
| "value_size (JArr xs) = 3 + sum_list (map (\<lambda>x. 1 + value_size x) xs)"
| "value_size (JObj kvs) = 3 + sum_list (map (\<lambda>kv. 1 + length (fst kv) + value_size (snd kv)) kvs)"

definition item_size :: "item \<Rightarrow> nat" where
  "item_size it = sum_list (map (\<lambda>kv. length (fst kv) + value_size (snd kv)) it)"

definition page_limit :: nat where
  "page_limit = 1048576"

definition partition_of :: "table \<Rightarrow> jsval \<Rightarrow> item list" where
  "partition_of rows uid = filter (\<lambda>r. map_of r ''userID'' = Some uid) rows"

definition task_key :: "item \<Rightarrow> string" where
  "task_key r = (case map_of r ''taskID'' of Some (JStr s) \<Rightarrow> s | _ \<Rightarrow> [])"

fun first_page :: "nat \<Rightarrow> item list \<Rightarrow> item list" where
  "first_page room [] = []"
| "first_page room (r # rs) =
     (if item_size r \<le> room then r # first_page (room - item_size r) rs else [])"

definition query_items :: "table \<Rightarrow> jsval \<Rightarrow> item list" where
  "query_items rows uid = first_page page_limit (sort_key task_key (partition_of rows uid))"

text \<open>
  UpdateItem with a SET expression and no condition: each clause \<^verbatim>\<open>#n = :v\<close> is a
  pair of placeholders, resolved through ExpressionAttributeNames and
  ExpressionAttributeValues; the service rejects a placeholder that is not defined.
  The attributes named are written into the item with the given key and every other
  attribute of it is left as it is. When no item has the key, UpdateItem adds a new
  item made of the key and the attributes set. ReturnValues ALL_NEW returns the item as
  it is after the update.
\<close>

record update_params =
  TableName :: "string option"
  Key :: "jsval \<times> jsval"
  UpdateExpression :: "(string \<times> string) list"
  ExpressionAttributeValues :: "(string \<times> jsval) list"
  ExpressionAttributeNames :: "(string \<times> string) list"

fun resolve_clauses ::
  "(string \<times> string) list \<Rightarrow> (string \<times> jsval) list \<Rightarrow> (string \<times> string) list \<Rightarrow>
   (string \<times> jsval) list option" where
  "resolve_clauses names vals [] = Some []"
| "resolve_clauses names vals ((n, v) # cs) =
     (case (map_of names n, map_of vals v, resolve_clauses names vals cs) of
        (Some a, Some x, Some rest) \<Rightarrow> Some ((a, x) # rest)
      | _ \<Rightarrow> None)"

definition set_attrs :: "(string \<times> jsval) list \<Rightarrow> item \<Rightarrow> item" where
  "set_attrs sets it = fold (\<lambda>(a, x) i. AList.update a x i) sets it"

definition update_item :: "table \<Rightarrow> jsval \<times> jsval \<Rightarrow> (string \<times> jsval) list \<Rightarrow> item \<times> table" where
  "update_item rows k sets =
     (case find (\<lambda>r. item_key r = (Some (fst k), Some (snd k))) rows of
        None \<Rightarrow>
          (let new = set_attrs sets [(''userID'', fst k), (''taskID'', snd k)]
           in (new, rows @ [new]))
      | Some old \<Rightarrow>
          (set_attrs sets old,
           map (\<lambda>r. if item_key r = (Some (fst k), Some (snd k)) then set_attrs sets r else r) rows))"

text \<open>
  DeleteItem with ReturnValues ALL_OLD: removes the item with the key and returns it as
  it was; returns no Attributes when no item has the key.
\<close>

definition delete_item :: "table \<Rightarrow> jsval \<times> jsval \<Rightarrow> item option \<times> table" where
  "delete_item rows k =
     (find (\<lambda>r. item_key r = (Some (fst k), Some (snd k))) rows,
      filter (\<lambda>r. item_key r \<noteq> (Some (fst k), Some (snd k))) rows)"

text \<open>
  What a handler's run depends on besides the event and the database:
  \<^item> \<open>JSON_parse\<close>: \<^verbatim>\<open>JSON.parse\<close> applied to a value (a string is parsed, any other
    value is converted to a string first); \<open>Inl\<close> is the SyntaxError it throws;
  \<^item> \<open>randomUUID\<close>: what \<^verbatim>\<open>crypto.randomUUID()\<close> returns;
  \<^item> \<open>clock\<close>: \<open>clock env i\<close> is the text of the \<open>i\<close>-th
    \<^verbatim>\<open>new Date().toISOString()\<close> of the run, counted from 0;
  \<^item> \<open>TABLE_NAME\<close>: \<^verbatim>\<open>process.env.TABLE_NAME\<close>;
  \<^item> \<open>send_error\<close>: \<open>Some err\<close> when the one \<^verbatim>\<open>send\<close> call of the run throws
    \<open>err\<close> (the network, throttling, a request the client or the service rejects),
    \<open>None\<close> when it does not throw.
\<close>

record env =
  JSON_parse :: "jsval \<Rightarrow> js_error + jsval"
  randomUUID :: string
  clock :: "nat \<Rightarrow> string"
  TABLE_NAME :: "string option"
  send_error :: "js_error option"

text \<open>
  One \<^verbatim>\<open>send\<close>: it throws \<open>send_error\<close> if there is one, and the service's own error
  when the request names no table or a table that does not exist; otherwise the
  operation \<open>f\<close> runs on the table and the database holds its result.
\<close>

definition send :: "env \<Rightarrow> database \<Rightarrow> string option \<Rightarrow> (table \<Rightarrow> 'a \<times> table) \<Rightarrow> js_error + ('a \<times> database)" where
  "send env db tn f =
     (case send_error env of
        Some err \<Rightarrow> Inl err
      | None \<Rightarrow>
          (case tn of
             None \<Rightarrow> Inl (JsError ''ValidationException''
                       (''1 validation error detected: Value null at '' @ quoted ''tableName'' @
                        '' failed to satisfy constraint: Member must not be null''))
           | Some n \<Rightarrow>
               (case db n of
                  None \<Rightarrow> Inl (JsError ''ResourceNotFoundException'' ''Requested resource not found'')
                | Some rows \<Rightarrow> (case f rows of (out, rows') \<Rightarrow> Inr (out, db(n \<mapsto> rows'))))))"

text \<open>UpdateItem as the handler sends it: the SET clauses are resolved, then applied.\<close>

definition send_update :: "env \<Rightarrow> database \<Rightarrow> update_params \<Rightarrow> js_error + (item \<times> database)" where
  "send_update env db params =
     (case resolve_clauses (ExpressionAttributeNames params)
             (marshall (ExpressionAttributeValues params)) (UpdateExpression params) of
        None \<Rightarrow> Inl (JsError ''ValidationException'' ''Invalid UpdateExpression: an expression attribute name or value used in expression is not defined'')
      | Some sets \<Rightarrow> send env db (TableName params) (\<lambda>rows. update_item rows (Key params) sets))"

section \<open>The handlers\<close>

text \<open>
  Each handler is a \<^verbatim>\<open>try\<close> block, which returns a response or throws, and a
  \<^verbatim>\<open>catch\<close> that turns what was thrown into the 500 response. A handler returns its
  response and the database as the run leaves it. \<open>then_do\<close> sequences two steps of a
  \<^verbatim>\<open>try\<close> block: a throw of the first skips the second. Logging is left out.
\<close>

definition then_do :: "js_error + 'a \<Rightarrow> ('a \<Rightarrow> js_error + 'b) \<Rightarrow> js_error + 'b" where
  "then_do r f = (case r of Inl err \<Rightarrow> Inl err | Inr x \<Rightarrow> f x)"

definition reply :: "nat \<Rightarrow> jsval \<Rightarrow> response" where
  "reply code v = \<lparr>statusCode = code, headers = None, body_text = JSON_stringify v\<rparr>"

definition reply_json :: "nat \<Rightarrow> jsval \<Rightarrow> response" where
  "reply_json code v =
     \<lparr>statusCode = code, headers = Some [(''Content-Type'', ''application/json'')],
      body_text = JSON_stringify v\<rparr>"

subsection \<open>createTodo\<close>

definition create_item :: "env \<Rightarrow> jsval \<Rightarrow> jsval \<Rightarrow> jsval \<Rightarrow> item" where
  "create_item env userID title description =
     [(''userID'', userID),
      (''taskID'', JStr (randomUUID env)),
      (''title'', title),
      (''description'', description),
      (''status'', JStr ''pending''),
      (''createdAt'', JStr (clock env 0)),
      (''updatedAt'', JStr (clock env 1))]"

definition create_try :: "env \<Rightarrow> database \<Rightarrow> event \<Rightarrow> js_error + (response \<times> database)" where
  "create_try env db e =
     then_do (JSON_parse env (body e)) (\<lambda>b.
       if \<not> truthy b then Inr (reply 400 (JObj [(''message'', JStr ''Request body is missing'')]), db)
       else
         then_do (get_prop b ''userID'') (\<lambda>userID.
         then_do (get_prop b ''title'') (\<lambda>title.
         then_do (get_prop b ''description'') (\<lambda>description.
           if \<not> truthy userID \<or> \<not> truthy title
           then Inr (reply 400 (JObj [(''message'', JStr ''Missing required fields'')]), db)
           else
             (let item = create_item env userID title description in
              then_do (send env db (Some ''todos'') (\<lambda>rows. ((), put_item rows (marshall item))))
                (\<lambda>(u, db'). Inr (reply 200 (JObj item), db')))))))"

definition createTodo :: "env \<Rightarrow> database \<Rightarrow> event \<Rightarrow> response \<times> database" where
  "createTodo env db e =
     (case create_try env db e of
        Inl err \<Rightarrow>
          (reply 500 (JObj [(''message'', JStr (''Internal server error'' @ error_toString err))]), db)
      | Inr r \<Rightarrow> r)"

subsection \<open>getTodos\<close>

definition get_try :: "env \<Rightarrow> database \<Rightarrow> event \<Rightarrow> js_error + (response \<times> database)" where
  "get_try env db e =
     (let userId = js_or (param (queryStringParameters e) ''userId'')
                         (param (queryStringParameters e) ''userID'') in
      if \<not> truthy userId
      then Inr (reply 400 (JObj [(''message'', JStr ''Missing userId in query parameters'')]), db)
      else
        then_do (send env db (Some ''todos'') (\<lambda>rows. (query_items rows userId, rows)))
          (\<lambda>(items, db'). Inr (reply_json 200 (JArr (map JObj items)), db')))"

definition getTodos :: "env \<Rightarrow> database \<Rightarrow> event \<Rightarrow> response \<times> database" where
  "getTodos env db e =
     (case get_try env db e of
        Inl err \<Rightarrow> (reply 500 (JObj [(''message'', JStr ''Internal server error'')]), db)
      | Inr r \<Rightarrow> r)"

subsection \<open>updateTodo\<close>

text \<open>
  The loop over title, description and status. The three accumulators are
  updateExpressions (the clause \<^verbatim>\<open>#key = :key\<close> as its two placeholders),
  expressionValues and expressionNames.
\<close>

type_synonym update_acc =
  "(string \<times> string) list \<times> (string \<times> jsval) list \<times> (string \<times> string) list"

fun collect_fields :: "jsval \<Rightarrow> string list \<Rightarrow> update_acc \<Rightarrow> js_error + update_acc" where
  "collect_fields b [] acc = Inr acc"
| "collect_fields b (key # keys) (updateExpressions, expressionValues, expressionNames) =
     then_do (get_prop b key) (\<lambda>v.
       if v \<noteq> JUndefined
       then collect_fields b keys
              (updateExpressions @ [(CHR ''#'' # key, CHR '':'' # key)],
               AList.update (CHR '':'' # key) v expressionValues,
               AList.update (CHR ''#'' # key) key expressionNames)
       else collect_fields b keys (updateExpressions, expressionValues, expressionNames))"

text \<open>
  \<^verbatim>\<open>typeof event.body === "string" ? JSON.parse(event.body) : event.body\<close>
\<close>

definition update_body :: "env \<Rightarrow> event \<Rightarrow> js_error + jsval" where
  "update_body env e = (case body e of JStr s \<Rightarrow> JSON_parse env (JStr s) | v \<Rightarrow> Inr v)"

definition update_try :: "env \<Rightarrow> database \<Rightarrow> event \<Rightarrow> js_error + (response \<times> database)" where
  "update_try env db e =
     (let taskID = param (pathParameters e) ''taskID'';
          userId = js_or (param (queryStringParameters e) ''userId'')
                         (param (queryStringParameters e) ''userID'') in
      if \<not> truthy taskID \<or> \<not> truthy userId
      then Inr (reply 400 (JObj [(''message'', JStr ''Missing taskID or userId'')]), db)
      else
        then_do (update_body env e) (\<lambda>b.
        then_do (collect_fields b [''title'', ''description'', ''status''] ([], [], []))
          (\<lambda>(updateExpressions, expressionValues, expressionNames).
             if length updateExpressions = 0
             then Inr (reply 400 (JObj [(''message'', JStr ''No valid fields to update'')]), db)
             else
               (let params = \<lparr>TableName = Some ''todos'', Key = (userId, taskID),
                              UpdateExpression = updateExpressions,
                              ExpressionAttributeValues = expressionValues,
                              ExpressionAttributeNames = expressionNames\<rparr> in
                then_do (send_update env db params)
                  (\<lambda>(attributes, db'). Inr (reply_json 200 (JObj attributes), db'))))))"

definition updateTodo :: "env \<Rightarrow> database \<Rightarrow> event \<Rightarrow> response \<times> database" where
  "updateTodo env db e =
     (case update_try env db e of
        Inl err \<Rightarrow> (reply 500 (JObj [(''message'', JStr ''Internal server error'')]), db)
      | Inr r \<Rightarrow> r)"

subsection \<open>deleteTodo\<close>

definition delete_try :: "env \<Rightarrow> database \<Rightarrow> event \<Rightarrow> js_error + (response \<times> database)" where
  "delete_try env db e =
     (let userID = param (pathParameters e) ''userID'';
          taskID = param (pathParameters e) ''taskID'' in
      if \<not> truthy userID \<or> \<not> truthy taskID
      then Inr (reply 400 (JObj [(''message'',
                  JStr (''Missing '' @ quoted ''userID'' @ '' or '' @ quoted ''taskID'' @ '' in path parameters''))]), db)
      else
        then_do (send env db (TABLE_NAME env) (\<lambda>rows. delete_item rows (userID, taskID)))
          (\<lambda>(attributes, db').
             if attributes = None
             then Inr (reply 404 (JObj [(''message'',
                         JStr (''Todo with userID '' @ quoted (template_str userID) @ '' and taskID '' @
                               quoted (template_str taskID) @ '' not found''))]), db')
             else Inr (reply 200 (JObj [(''message'',
                         JStr (''Todo '' @ quoted (template_str taskID) @ '' deleted successfully for user '' @
                               quoted (template_str userID)))]), db')))"

definition deleteTodo :: "env \<Rightarrow> database \<Rightarrow> event \<Rightarrow> response \<times> database" where
  "deleteTodo env db e =
     (case delete_try env db e of
        Inl err \<Rightarrow>
          (reply 500 (JObj [(''message'', JStr ''Internal server error while deleting todo''),
                            (''error'', JStr (error_message err))]), db)
      | Inr r \<Rightarrow> r)"

section \<open>Notions the statements use\<close>

text \<open>
  \<open>field b key\<close> is the property a handler reads from a body that is neither
  undefined nor null (where the read cannot throw). \<open>supplied b\<close> lists the fields
  among title, description and status that the body defines, with their values.
  \<open>owner_param e\<close> is \<^verbatim>\<open>queryStringParameters?.userId || queryStringParameters?.userID\<close>.
\<close>

definition field :: "jsval \<Rightarrow> string \<Rightarrow> jsval" where
  "field b key = (case get_prop b key of Inl err \<Rightarrow> JUndefined | Inr v \<Rightarrow> v)"

definition supplied :: "jsval \<Rightarrow> (string \<times> jsval) list" where
  "supplied b =
     filter (\<lambda>kv. snd kv \<noteq> JUndefined)
       (map (\<lambda>key. (key, field b key)) [''title'', ''description'', ''status''])"

definition owner_param :: "event \<Rightarrow> jsval" where
  "owner_param e =
     js_or (param (queryStringParameters e) ''userId'') (param (queryStringParameters e) ''userID'')"

text \<open>
  The timestamps are ISO 8601 texts in UTC, all of one length, so the later of two is the
  greater in the lexicographic order of strings.
\<close>

definition updatedAt_later :: "item \<Rightarrow> item \<Rightarrow> bool" where
  "updatedAt_later old new =
     (case (map_of old ''updatedAt'', map_of new ''updatedAt'') of
        (Some (JStr a), Some (JStr b)) \<Rightarrow> a < b
      | _ \<Rightarrow> False)"

text \<open>
  \<open>surfaces txt r\<close>: the text occurs verbatim inside a string property of the body of
  the response.
\<close>

definition surfaces :: "string \<Rightarrow> response \<Rightarrow> bool" where
  "surfaces txt r =
     (case body_text r of
        JObj kvs \<Rightarrow> list_ex (\<lambda>kv. case snd kv of JStr s \<Rightarrow> sublist txt s | _ \<Rightarrow> False) kvs
      | _ \<Rightarrow> False)"

section \<open>Sample requests\<close>

text \<open>
  The requests of the README's walk-through, used where a statement is run on a concrete
  input. \<open>sample_parse\<close> is \<^verbatim>\<open>JSON.parse\<close> on the bodies of these requests; it answers
  every other text with a SyntaxError, and no example sends another text.
\<close>

definition sample_parse :: "jsval \<Rightarrow> js_error + jsval" where
  \<open>sample_parse v =
     (if v = JStr ''{"userID":"maria123","title":"Buy groceries","description":"Milk, eggs, bread"}''
      then Inr (JObj [(''userID'', JStr ''maria123''), (''title'', JStr ''Buy groceries''),
                      (''description'', JStr ''Milk, eggs, bread'')])
      else if v = JStr ''{"userId":"maria123","title":"Buy groceries","description":"Milk, eggs, bread"}''
      then Inr (JObj [(''userId'', JStr ''maria123''), (''title'', JStr ''Buy groceries''),
                      (''description'', JStr ''Milk, eggs, bread'')])
      else if v = JStr ''{"userID":"maria123"}''
      then Inr (JObj [(''userID'', JStr ''maria123'')])
      else if v = JStr ''{"status":"completed"}''
      then Inr (JObj [(''status'', JStr ''completed'')])
      else if v = JStr ''{"priority":"high"}''
      then Inr (JObj [(''priority'', JStr ''high'')])
      else Inl (JsError ''SyntaxError'' ''Unexpected token''))\<close>

definition sample_env :: env where
  "sample_env =
     \<lparr>JSON_parse = sample_parse, randomUUID = ''task-001'',
      clock = (\<lambda>i. if i = 0 then ''2026-02-11T14:57:33.999Z'' else ''2026-02-11T14:57:34.000Z''),
      TABLE_NAME = Some ''todos'', send_error = None\<rparr>"

definition sample_item :: item where
  "sample_item =
     [(''userID'', JStr ''maria123''), (''taskID'', JStr ''task-001''),
      (''title'', JStr ''Buy groceries''), (''description'', JStr ''Milk, eggs, bread''),
      (''status'', JStr ''pending''),
      (''createdAt'', JStr ''2026-02-11T14:57:33.999Z''),
      (''updatedAt'', JStr ''2026-02-11T14:57:34.000Z'')]"

definition empty_db :: database where
  "empty_db = [''todos'' \<mapsto> []]"

definition sample_db :: database where
  "sample_db = [''todos'' \<mapsto> [sample_item]]"



definition create_event :: event where
  \<open>create_event =
     \<lparr>pathParameters = None, queryStringParameters = None,
      body = JStr ''{"userID":"maria123","title":"Buy groceries","description":"Milk, eggs, bread"}''\<rparr>\<close>

definition get_event :: event where
  "get_event =
     \<lparr>pathParameters = None, queryStringParameters = Some [''userId'' \<mapsto> ''maria123''],
      body = JUndefined\<rparr>"

definition update_event :: event where
  "update_event =
     \<lparr>pathParameters = Some [''taskID'' \<mapsto> ''task-001''],
      queryStringParameters = Some [''userId'' \<mapsto> ''maria123''],
      body = JObj [(''status'', JStr ''completed'')]\<rparr>"

definition delete_event :: event where
  "delete_event =
     \<lparr>pathParameters = Some [''userID'' \<mapsto> ''maria123'', ''taskID'' \<mapsto> ''task-001''],
      queryStringParameters = None, body = JUndefined\<rparr>"

section \<open>Properties\<close>

text \<open>The definitions a run on a concrete input unfolds.\<close>

lemmas sample_defs = sample_env_def sample_db_def empty_db_def sample_item_def sample_parse_def
  create_event_def get_event_def update_event_def delete_event_def

lemmas run_defs = param_def owner_param_def js_or_def then_do_def send_def update_item_def
  delete_item_def put_item_def query_items_def partition_of_def page_limit_def item_size_def
  task_key_def marshall_def set_attrs_def reply_json_def reply_def
  JSON_stringify_def item_key_def update_body_def field_def supplied_def Let_def

subsection \<open>Reading the request\<close>

lemma get_prop_field: "b \<noteq> JUndefined \<Longrightarrow> b \<noteq> JNull \<Longrightarrow> get_prop b key = Inr (field b key)"
  by (cases b) (simp_all add: field_def)

lemma truthy_not_null: "truthy b \<Longrightarrow> b \<noteq> JUndefined \<and> b \<noteq> JNull"
  by (cases b) simp_all

lemma collect_fields_supplied:
  assumes "b \<noteq> JUndefined" "b \<noteq> JNull"
  shows "\<exists>ex vals names.
           collect_fields b [''title'', ''description'', ''status''] ([], [], []) = Inr (ex, vals, names) \<and>
           resolve_clauses names (marshall vals) ex = Some (supplied b) \<and>
           (length ex = 0 \<longleftrightarrow> supplied b = [])"
  using assms
  by (simp add: get_prop_field then_do_def supplied_def marshall_def)

lemma collect_fields_null:
  "b = JUndefined \<or> b = JNull \<Longrightarrow>
   \<exists>err. collect_fields b [''title'', ''description'', ''status''] ([], [], []) = Inl err"
  by (auto simp: then_do_def)

lemma update_try_decoded:
  assumes "truthy (param (pathParameters e) ''taskID'')" "truthy (owner_param e)"
      and "update_body env e = Inr b" "b \<noteq> JUndefined" "b \<noteq> JNull"
  shows "update_try env db e =
           (if supplied b = []
            then Inr (reply 400 (JObj [(''message'', JStr ''No valid fields to update'')]), db)
            else then_do (send env db (Some ''todos'')
                            (\<lambda>rows. update_item rows (owner_param e, param (pathParameters e) ''taskID'') (supplied b)))
                   (\<lambda>(attributes, db'). Inr (reply_json 200 (JObj attributes), db')))"
proof -
  from collect_fields_supplied [OF assms(4,5)] obtain ex vals names where
    c: "collect_fields b [''title'', ''description'', ''status''] ([], [], []) = Inr (ex, vals, names)"
    and r: "resolve_clauses names (marshall vals) ex = Some (supplied b)"
    and z: "length ex = 0 \<longleftrightarrow> supplied b = []"
    by blast
  show ?thesis
    using assms(1,2,3) r z
    by (simp add: update_try_def c then_do_def send_update_def owner_param_def Let_def
             del: collect_fields.simps)
qed

subsection \<open>The store\<close>

lemma send_ok:
  "send_error env = None \<Longrightarrow> db n = Some rows \<Longrightarrow>
   send env db (Some n) f = Inr (fst (f rows), db(n \<mapsto> snd (f rows)))"
  by (simp add: send_def split: prod.splits)

lemma send_throws: "send_error env = Some err \<Longrightarrow> send env db tn f = Inl err"
  by (simp add: send_def)

lemma map_of_set_attrs:
  "map_of (set_attrs sets it) a = (case map_of (rev sets) a of None \<Rightarrow> map_of it a | Some v \<Rightarrow> Some v)"
  unfolding set_attrs_def
proof (induction sets arbitrary: it)
  case Nil
  then show ?case by simp
next
  case (Cons s sets)
  then show ?case
    by (cases s) (auto simp: update_conv' map_add_def split: option.splits)
qed

lemma values_set_attrs:
  "snd ` set (set_attrs sets it) \<subseteq> snd ` set sets \<union> snd ` set it"
  unfolding set_attrs_def
proof (induction sets arbitrary: it)
  case Nil
  then show ?case by simp
next
  case (Cons s sets)
  have u: "snd ` set (AList.update k v al) \<subseteq> insert v (snd ` set al)" for k v and al :: item
    by (induction al) auto
  from Cons [of "AList.update (fst s) (snd s) it"] u [of "fst s" "snd s" it] show ?case
    by (cases s) auto
qed

lemma supplied_keys: "fst ` set (supplied b) \<subseteq> {''title'', ''description'', ''status''}"
  by (auto simp: supplied_def)

lemma supplied_distinct: "distinct (map fst (supplied b))"
  by (simp add: supplied_def)

lemma supplied_values: "(key, v) \<in> set (supplied b) \<Longrightarrow> v = field b key \<and> v \<noteq> JUndefined"
  by (auto simp: supplied_def split: if_splits)

lemma supplied_member:
  "key \<in> {''title'', ''description'', ''status''} \<Longrightarrow> field b key \<noteq> JUndefined \<Longrightarrow>
   (key, field b key) \<in> set (supplied b)"
  by (auto simp: supplied_def)

lemma map_of_supplied:
  "map_of (rev (supplied b)) a = map_of (supplied b) a"
  by (simp add: supplied_def)


lemma find_unique:
  "distinct (map f xs) \<Longrightarrow> x \<in> set xs \<Longrightarrow> find (\<lambda>r. f r = f x) xs = Some x"
  by (induction xs) (auto simp: image_iff)

lemma updateTodo_sent:
  assumes "truthy (param (pathParameters e) ''taskID'')" "truthy (owner_param e)"
      and "update_body env e = Inr b" "b \<noteq> JUndefined" "b \<noteq> JNull"
      and "supplied b \<noteq> []" "send_error env = None" "db ''todos'' = Some rows"
  shows "updateTodo env db e =
           (reply_json 200
              (JObj (fst (update_item rows (owner_param e, param (pathParameters e) ''taskID'') (supplied b)))),
            db(''todos'' \<mapsto>
              snd (update_item rows (owner_param e, param (pathParameters e) ''taskID'') (supplied b))))"
  using assms(6,7,8)
  by (simp add: updateTodo_def update_try_decoded [OF assms(1-5)] send_ok then_do_def)

lemma set_attrs_supplied_new:
  "(a, v) \<in> set (supplied b) \<Longrightarrow> map_of (set_attrs (supplied b) old) a = Some v"
proof -
  assume "(a, v) \<in> set (supplied b)"
  with supplied_distinct [of b] have "map_of (supplied b) a = Some v"
    by (rule map_of_is_SomeI)
  then show ?thesis
    by (simp add: map_of_set_attrs map_of_supplied)
qed

lemma set_attrs_supplied_old:
  "a \<notin> fst ` set (supplied b) \<Longrightarrow> map_of (set_attrs (supplied b) old) a = map_of old a"
proof -
  assume "a \<notin> fst ` set (supplied b)"
  then have "map_of (supplied b) a = None"
    by (simp add: map_of_eq_None_iff)
  then show ?thesis
    by (simp add: map_of_set_attrs map_of_supplied)
qed

lemma update_item_existing:
  assumes uniq: "distinct (map item_key rows)"
      and old: "old \<in> set rows"
      and key: "item_key old = (Some u, Some t)"
  shows "update_item rows (u, t) sets =
           (set_attrs sets old, map (\<lambda>r. if r = old then set_attrs sets old else r) rows)"
proof -
  from find_unique [OF uniq old] key
  have f: "find (\<lambda>r. item_key r = (Some u, Some t)) rows = Some old"
    by simp
  have same: "r = old" if "r \<in> set rows" "item_key r = (Some u, Some t)" for r
  proof -
    from uniq have "inj_on item_key (set rows)"
      by (simp add: distinct_map)
    from inj_onD [OF this, of r old] that old key show ?thesis
      by simp
  qed
  have m: "map (\<lambda>r. if item_key r = (Some u, Some t) then set_attrs sets r else r) rows =
           map (\<lambda>r. if r = old then set_attrs sets old else r) rows"
  proof (rule map_cong [OF refl])
    fix r assume "r \<in> set rows"
    with same [of r] key
    show "(if item_key r = (Some u, Some t) then set_attrs sets r else r) =
          (if r = old then set_attrs sets old else r)"
      by (cases "r = old") auto
  qed
  from f m show ?thesis
    by (simp add: update_item_def)
qed


subsection \<open>updateTodo without a body\<close>

text \<open>
  C10. An update request with a task id and an owner but no body (event.body undefined
  or null) is answered with the generic 500 response, not with a 400: the loop reads
  \<^verbatim>\<open>body[key]\<close> of the missing body, the read throws, and the catch block answers.
  The table is not touched.
\<close>

theorem update_without_body_500:
  assumes "truthy (param (pathParameters e) ''taskID'')"
      and "truthy (owner_param e)"
      and "body e = JUndefined \<or> body e = JNull"
  shows "updateTodo env db e =
           (\<lparr>statusCode = 500, headers = None,
             body_text = JObj [(''message'', JStr ''Internal server error'')]\<rparr>, db)"
proof -
  from assms(3) have b: "update_body env e = Inr (body e)"
    by (auto simp: update_body_def)
  from collect_fields_null [OF assms(3)] obtain err where
    "collect_fields (body e) [''title'', ''description'', ''status''] ([], [], []) = Inl err"
    by blast
  with assms(1,2) b have "update_try env db e = Inl err"
    by (simp add: update_try_def owner_param_def then_do_def Let_def del: collect_fields.simps)
  then show ?thesis
    by (simp add: updateTodo_def reply_def JSON_stringify_def)
qed

theorem update_without_body_500_witness:
  "truthy (param (pathParameters (update_event\<lparr>body := JUndefined\<rparr>)) ''taskID'') \<and>
   truthy (owner_param (update_event\<lparr>body := JUndefined\<rparr>)) \<and>
   updateTodo sample_env sample_db (update_event\<lparr>body := JUndefined\<rparr>) =
     (\<lparr>statusCode = 500, headers = None,
       body_text = JObj [(''message'', JStr ''Internal server error'')]\<rparr>, sample_db)"
proof -
  have t: "truthy (param (pathParameters (update_event\<lparr>body := JUndefined\<rparr>)) ''taskID'')"
    by (simp add: update_event_def param_def)
  have o: "truthy (owner_param (update_event\<lparr>body := JUndefined\<rparr>))"
    by (simp add: update_event_def owner_param_def param_def js_or_def)
  have b: "body (update_event\<lparr>body := JUndefined\<rparr>) = JUndefined \<or>
           body (update_event\<lparr>body := JUndefined\<rparr>) = JNull"
    by simp
  from update_without_body_500 [OF t o b, of sample_env sample_db] t o show ?thesis
    by simp
qed

subsection \<open>The fields an update applies\<close>



subsection \<open>An update of a key that is absent\<close>

text \<open>
  C1, as amended. The handler sends UpdateItem without a condition and has no 404
  branch. For an update request whose (owner, taskID) key no row of the table has, when
  the send does not throw, the answer is 200 and the table gains a new item made of the
  key and the supplied fields; the answer is neither 404 nor 500.
\<close>

theorem update_absent_key_upserts:
  assumes "truthy (param (pathParameters e) ''taskID'')" and "truthy (owner_param e)"
      and "update_body env e = Inr b" and "b \<noteq> JUndefined" and "b \<noteq> JNull"
      and "supplied b \<noteq> []" and "send_error env = None" and "db ''todos'' = Some rows"
      and absent: "\<forall>r \<in> set rows. item_key r \<noteq> (Some (owner_param e), Some (param (pathParameters e) ''taskID''))"
  shows "\<exists>new.
           updateTodo env db e =
             (\<lparr>statusCode = 200, headers = Some [(''Content-Type'', ''application/json'')],
               body_text = JObj new\<rparr>, db(''todos'' \<mapsto> rows @ [new])) \<and>
           item_key new = (Some (owner_param e), Some (param (pathParameters e) ''taskID'')) \<and>
           (\<forall>a. a \<noteq> ''userID'' \<longrightarrow> a \<noteq> ''taskID'' \<longrightarrow> map_of new a = map_of (supplied b) a)"
proof -
  let ?k = "(owner_param e, param (pathParameters e) ''taskID'')"
  let ?new = "set_attrs (supplied b)
               [(''userID'', owner_param e), (''taskID'', param (pathParameters e) ''taskID'')]"
  from absent have f: "find (\<lambda>r. item_key r = (Some (fst ?k), Some (snd ?k))) rows = None"
    by (simp add: find_None_iff)
  then have u: "update_item rows ?k (supplied b) = (?new, rows @ [?new])"
    by (simp add: update_item_def Let_def)
  have "JUndefined \<notin> snd ` set ?new"
  proof
    assume "JUndefined \<in> snd ` set ?new"
    with values_set_attrs [of "supplied b"
           "[(''userID'', owner_param e), (''taskID'', param (pathParameters e) ''taskID'')]"]
    have "JUndefined \<in> snd ` set (supplied b) \<or> JUndefined = owner_param e \<or>
          JUndefined = param (pathParameters e) ''taskID''"
      by auto
    with assms(1,2) show False
      by (auto dest: supplied_values)
  qed
  then have "\<forall>kv \<in> set ?new. snd kv \<noteq> JUndefined"
    by force
  then have s: "filter (\<lambda>kv. snd kv \<noteq> JUndefined) ?new = ?new"
    by (simp add: filter_id_conv)
  have r: "updateTodo env db e =
             (\<lparr>statusCode = 200, headers = Some [(''Content-Type'', ''application/json'')],
               body_text = JObj ?new\<rparr>, db(''todos'' \<mapsto> rows @ [?new]))"
    by (simp add: updateTodo_sent [where db = db and rows = rows, OF assms(1-8)] u reply_json_def JSON_stringify_def s)
  have n: "map_of (supplied b) ''userID'' = None" "map_of (supplied b) ''taskID'' = None"
    by (simp_all add: supplied_def)
  have k: "item_key ?new = (Some (fst ?k), Some (snd ?k))"
    by (simp add: item_key_def map_of_set_attrs map_of_supplied n)
  have a: "\<forall>a. a \<noteq> ''userID'' \<longrightarrow> a \<noteq> ''taskID'' \<longrightarrow> map_of ?new a = map_of (supplied b) a"
    by (simp add: map_of_set_attrs map_of_supplied split: option.splits)
  from r k a show ?thesis
    by (intro exI [of _ ?new]) simp
qed

theorem update_absent_key_upserts_witness:
  "truthy (param (pathParameters update_event) ''taskID'') \<and>
   truthy (owner_param update_event) \<and>
   update_body sample_env update_event = Inr (JObj [(''status'', JStr ''completed'')]) \<and>
   supplied (JObj [(''status'', JStr ''completed'')]) \<noteq> [] \<and>
   send_error sample_env = None \<and>
   empty_db ''todos'' = Some [] \<and>
   (\<exists>new.
      updateTodo sample_env empty_db update_event =
        (\<lparr>statusCode = 200, headers = Some [(''Content-Type'', ''application/json'')],
          body_text = JObj new\<rparr>, empty_db(''todos'' \<mapsto> [new])) \<and>
      item_key new = (Some (JStr ''maria123''), Some (JStr ''task-001'')))"
proof -
  let ?b = "JObj [(''status'', JStr ''completed'')]"
  have t: "truthy (param (pathParameters update_event) ''taskID'')"
    by (simp add: update_event_def param_def)
  have o: "truthy (owner_param update_event)"
    by (simp add: update_event_def param_def owner_param_def js_or_def)
  have p: "update_body sample_env update_event = Inr ?b"
    by (simp add: update_body_def update_event_def)
  have n: "?b \<noteq> JUndefined" "?b \<noteq> JNull"
    by simp_all
  have s: "supplied ?b \<noteq> []"
    by (simp add: supplied_def field_def)
  have f: "send_error sample_env = None"
    by (simp add: sample_env_def)
  have d: "empty_db ''todos'' = Some []"
    by (simp add: empty_db_def)
  have a: "\<forall>r \<in> set []. item_key r \<noteq>
             (Some (owner_param update_event), Some (param (pathParameters update_event) ''taskID''))"
    by simp
  have k: "owner_param update_event = JStr ''maria123''"
          "param (pathParameters update_event) ''taskID'' = JStr ''task-001''"
    by (simp_all add: update_event_def param_def owner_param_def js_or_def)
  from update_absent_key_upserts [where db = empty_db and rows = "[]", OF t o p n s f d a]
  obtain new where
    "updateTodo sample_env empty_db update_event =
       (\<lparr>statusCode = 200, headers = Some [(''Content-Type'', ''application/json'')],
         body_text = JObj new\<rparr>, empty_db(''todos'' \<mapsto> [] @ [new]))"
    "item_key new = (Some (owner_param update_event), Some (param (pathParameters update_event) ''taskID''))"
    by blast
  with k have "\<exists>new.
      updateTodo sample_env empty_db update_event =
        (\<lparr>statusCode = 200, headers = Some [(''Content-Type'', ''application/json'')],
          body_text = JObj new\<rparr>, empty_db(''todos'' \<mapsto> [new])) \<and>
      item_key new = (Some (JStr ''maria123''), Some (JStr ''task-001''))"
    by auto
  with t o p s f d show ?thesis
    by blast
qed

text \<open>
  C1 as stated fails: on the empty table the README's update request is answered with
  200, not 404, and afterwards the table holds a record for the key.
\<close>

theorem update_absent_key_counterexample:
  "statusCode (fst (updateTodo sample_env empty_db update_event)) = 200 \<and>
   snd (updateTodo sample_env empty_db update_event) ''todos'' =
     Some [[(''userID'', JStr ''maria123''), (''taskID'', JStr ''task-001''),
            (''status'', JStr ''completed'')]]"
  by (simp add: updateTodo_def update_try_def update_body_def sample_env_def empty_db_def update_event_def
        param_def js_or_def then_do_def send_update_def send_def update_item_def marshall_def
        set_attrs_def reply_json_def reply_def JSON_stringify_def item_key_def Let_def)

subsection \<open>An update of an existing record\<close>

text \<open>
  C2, as amended. For a successful update of an existing record (the table's keys being
  unique), the stored record after the operation is the record before with the supplied
  fields, a non-empty subset of title, description and status, set to the supplied
  values; every other attribute is unchanged, updatedAt included (the handler's SET
  expression names the supplied fields only), and so are all other rows.
\<close>

theorem update_existing_changes_only_supplied:
  assumes "truthy (param (pathParameters e) ''taskID'')" and "truthy (owner_param e)"
      and "update_body env e = Inr b" and "b \<noteq> JUndefined" and "b \<noteq> JNull"
      and "supplied b \<noteq> []" and "send_error env = None" and "db ''todos'' = Some rows"
      and uniq: "distinct (map item_key rows)"
      and old: "old \<in> set rows"
      and key: "item_key old = (Some (owner_param e), Some (param (pathParameters e) ''taskID''))"
  shows "\<exists>new.
           updateTodo env db e =
             (\<lparr>statusCode = 200, headers = Some [(''Content-Type'', ''application/json'')],
               body_text = JSON_stringify (JObj new)\<rparr>,
              db(''todos'' \<mapsto> map (\<lambda>r. if r = old then new else r) rows)) \<and>
           (\<forall>a v. (a, v) \<in> set (supplied b) \<longrightarrow> map_of new a = Some v) \<and>
           (\<forall>a. a \<notin> fst ` set (supplied b) \<longrightarrow> map_of new a = map_of old a) \<and>
           fst ` set (supplied b) \<subseteq> {''title'', ''description'', ''status''} \<and>
           map_of new ''updatedAt'' = map_of old ''updatedAt'' \<and>
           map_of new ''createdAt'' = map_of old ''createdAt'' \<and>
           map_of new ''userID'' = map_of old ''userID'' \<and>
           map_of new ''taskID'' = map_of old ''taskID''"
proof (intro exI conjI)
  let ?new = "set_attrs (supplied b) old"
  show "updateTodo env db e =
          (\<lparr>statusCode = 200, headers = Some [(''Content-Type'', ''application/json'')],
            body_text = JSON_stringify (JObj ?new)\<rparr>,
           db(''todos'' \<mapsto> map (\<lambda>r. if r = old then ?new else r) rows))"
    by (simp only: updateTodo_sent [where db = db and rows = rows, OF assms(1-8)]
          update_item_existing [OF uniq old key] reply_json_def fst_conv snd_conv)
  show "\<forall>a v. (a, v) \<in> set (supplied b) \<longrightarrow> map_of ?new a = Some v"
    by (intro allI impI) (rule set_attrs_supplied_new)
  show "\<forall>a. a \<notin> fst ` set (supplied b) \<longrightarrow> map_of ?new a = map_of old a"
    by (intro allI impI) (rule set_attrs_supplied_old)
  show "fst ` set (supplied b) \<subseteq> {''title'', ''description'', ''status''}"
    by (rule supplied_keys)
  have n: "''updatedAt'' \<notin> fst ` set (supplied b)" "''createdAt'' \<notin> fst ` set (supplied b)"
          "''userID'' \<notin> fst ` set (supplied b)" "''taskID'' \<notin> fst ` set (supplied b)"
    by (simp_all add: supplied_def)
  show "map_of ?new ''updatedAt'' = map_of old ''updatedAt''"
    by (rule set_attrs_supplied_old [OF n(1)])
  show "map_of ?new ''createdAt'' = map_of old ''createdAt''"
    by (rule set_attrs_supplied_old [OF n(2)])
  show "map_of ?new ''userID'' = map_of old ''userID''"
    by (rule set_attrs_supplied_old [OF n(3)])
  show "map_of ?new ''taskID'' = map_of old ''taskID''"
    by (rule set_attrs_supplied_old [OF n(4)])
qed

theorem update_existing_changes_only_supplied_witness:
  "truthy (param (pathParameters update_event) ''taskID'') \<and>
   truthy (owner_param update_event) \<and>
   update_body sample_env update_event = Inr (JObj [(''status'', JStr ''completed'')]) \<and>
   supplied (JObj [(''status'', JStr ''completed'')]) = [(''status'', JStr ''completed'')] \<and>
   send_error sample_env = None \<and>
   sample_db ''todos'' = Some [sample_item] \<and>
   distinct (map item_key [sample_item]) \<and>
   item_key sample_item = (Some (owner_param update_event), Some (param (pathParameters update_event) ''taskID'')) \<and>
   (\<exists>new.
      updateTodo sample_env sample_db update_event =
        (\<lparr>statusCode = 200, headers = Some [(''Content-Type'', ''application/json'')],
          body_text = JSON_stringify (JObj new)\<rparr>, sample_db(''todos'' \<mapsto> [new])) \<and>
      map_of new ''status'' = Some (JStr ''completed'') \<and>
      map_of new ''title'' = Some (JStr ''Buy groceries'') \<and>
      map_of new ''updatedAt'' = Some (JStr ''2026-02-11T14:57:34.000Z''))"
proof -
  let ?b = "JObj [(''status'', JStr ''completed'')]"
  have t: "truthy (param (pathParameters update_event) ''taskID'')"
    by (simp add: update_event_def param_def)
  have o: "truthy (owner_param update_event)"
    by (simp add: update_event_def param_def owner_param_def js_or_def)
  have p: "update_body sample_env update_event = Inr ?b"
    by (simp add: update_body_def update_event_def)
  have n: "?b \<noteq> JUndefined" "?b \<noteq> JNull"
    by simp_all
  have s: "supplied ?b = [(''status'', JStr ''completed'')]"
    by (simp add: supplied_def field_def)
  then have s': "supplied ?b \<noteq> []"
    by simp
  have f: "send_error sample_env = None"
    by (simp add: sample_env_def)
  have d: "sample_db ''todos'' = Some [sample_item]"
    by (simp add: sample_db_def)
  have u: "distinct (map item_key [sample_item])"
    by simp
  have m: "sample_item \<in> set [sample_item]"
    by simp
  have k: "item_key sample_item =
             (Some (owner_param update_event), Some (param (pathParameters update_event) ''taskID''))"
    by (simp add: item_key_def sample_item_def update_event_def param_def owner_param_def js_or_def)
  from update_existing_changes_only_supplied
         [where db = sample_db and rows = "[sample_item]", OF t o p n s' f d u m k]
  obtain new where r:
    "updateTodo sample_env sample_db update_event =
       (\<lparr>statusCode = 200, headers = Some [(''Content-Type'', ''application/json'')],
         body_text = JSON_stringify (JObj new)\<rparr>,
        sample_db(''todos'' \<mapsto> map (\<lambda>r. if r = sample_item then new else r) [sample_item]))"
    and a: "\<forall>a v. (a, v) \<in> set (supplied ?b) \<longrightarrow> map_of new a = Some v"
    and b: "\<forall>a. a \<notin> fst ` set (supplied ?b) \<longrightarrow> map_of new a = map_of sample_item a"
    by blast
  from a have 1: "map_of new ''status'' = Some (JStr ''completed'')"
    by (simp add: s)
  from b have 2: "map_of new ''title'' = Some (JStr ''Buy groceries'')"
    by (simp add: s sample_item_def)
  from b have 3: "map_of new ''updatedAt'' = Some (JStr ''2026-02-11T14:57:34.000Z'')"
    by (simp add: s sample_item_def)
  from r have r': "updateTodo sample_env sample_db update_event =
       (\<lparr>statusCode = 200, headers = Some [(''Content-Type'', ''application/json'')],
         body_text = JSON_stringify (JObj new)\<rparr>, sample_db(''todos'' \<mapsto> [new]))"
    by simp
  from r' 1 2 3 have "\<exists>new.
      updateTodo sample_env sample_db update_event =
        (\<lparr>statusCode = 200, headers = Some [(''Content-Type'', ''application/json'')],
          body_text = JSON_stringify (JObj new)\<rparr>, sample_db(''todos'' \<mapsto> [new])) \<and>
      map_of new ''status'' = Some (JStr ''completed'') \<and>
      map_of new ''title'' = Some (JStr ''Buy groceries'') \<and>
      map_of new ''updatedAt'' = Some (JStr ''2026-02-11T14:57:34.000Z'')"
    by blast
  with t o p s f d u k show ?thesis
    by blast
qed

text \<open>
  C2 as stated fails: after the README's update \<^verbatim>\<open>{"status": "completed"}\<close> of the
  sample record, the stored record has the updatedAt it had before, which is not
  strictly later.
\<close>

theorem update_existing_counterexample:
  "snd (updateTodo sample_env sample_db update_event) ''todos'' =
     Some [[(''userID'', JStr ''maria123''), (''taskID'', JStr ''task-001''),
            (''title'', JStr ''Buy groceries''), (''description'', JStr ''Milk, eggs, bread''),
            (''status'', JStr ''completed''),
            (''createdAt'', JStr ''2026-02-11T14:57:33.999Z''),
            (''updatedAt'', JStr ''2026-02-11T14:57:34.000Z'')]] \<and>
   \<not> updatedAt_later sample_item
       [(''userID'', JStr ''maria123''), (''taskID'', JStr ''task-001''),
        (''title'', JStr ''Buy groceries''), (''description'', JStr ''Milk, eggs, bread''),
        (''status'', JStr ''completed''),
        (''createdAt'', JStr ''2026-02-11T14:57:33.999Z''),
        (''updatedAt'', JStr ''2026-02-11T14:57:34.000Z'')]"
  by (simp add: updateTodo_def update_try_def update_body_def sample_env_def sample_db_def sample_item_def
        update_event_def param_def js_or_def then_do_def send_update_def send_def update_item_def
        marshall_def set_attrs_def reply_json_def reply_def JSON_stringify_def item_key_def Let_def
        updatedAt_later_def)

subsection \<open>The record createTodo writes\<close>

lemma truthy_defined: "truthy v \<Longrightarrow> v \<noteq> JUndefined"
  by (cases v) simp_all

lemma truthy_field: "truthy (field b key) \<Longrightarrow> truthy b"
  by (cases b) (simp_all add: field_def)

lemma create_try_valid:
  assumes "JSON_parse env (body e) = Inr b" "truthy (field b ''userID'')" "truthy (field b ''title'')"
  shows "create_try env db e =
           then_do (send env db (Some ''todos'')
                      (\<lambda>rows. ((), put_item rows
                         (marshall (create_item env (field b ''userID'') (field b ''title'') (field b ''description''))))))
             (\<lambda>(u, db'). Inr (reply 200
                (JObj (create_item env (field b ''userID'') (field b ''title'') (field b ''description''))), db'))"
proof -
  from assms(2) have t: "truthy b"
    by (rule truthy_field)
  then have g: "get_prop b key = Inr (field b key)" for key
    using truthy_not_null [of b] by (simp add: get_prop_field)
  from assms t show ?thesis
    by (simp add: create_try_def g then_do_def Let_def)
qed

lemma createTodo_sent:
  assumes "JSON_parse env (body e) = Inr b" "truthy (field b ''userID'')" "truthy (field b ''title'')"
      and "send_error env = None" "db ''todos'' = Some rows"
  shows "createTodo env db e =
           (reply 200 (JObj (create_item env (field b ''userID'') (field b ''title'') (field b ''description''))),
            db(''todos'' \<mapsto> put_item rows
                 (marshall (create_item env (field b ''userID'') (field b ''title'') (field b ''description'')))))"
  using assms(4,5)
  by (simp add: createTodo_def create_try_valid [OF assms(1-3)] send_ok then_do_def)

lemma marshall_create_item:
  assumes "truthy userID" "truthy title"
  shows "marshall (create_item env userID title description) =
           [(''userID'', userID), (''taskID'', JStr (randomUUID env)), (''title'', title)] @
           (if description = JUndefined then [] else [(''description'', description)]) @
           [(''status'', JStr ''pending''), (''createdAt'', JStr (clock env 0)),
            (''updatedAt'', JStr (clock env 1))]"
  using truthy_defined [OF assms(1)] truthy_defined [OF assms(2)]
  by (simp add: marshall_def create_item_def)

text \<open>
  C4, as amended. For every create request whose decoded body has a truthy userID and a
  truthy title, when the send does not throw, the answer is 200 and the record returned
  is the record written to the table: it has the given userID, title and description
  (no description attribute when the body has none), status "pending", and as taskID the
  value of \<^verbatim>\<open>crypto.randomUUID()\<close>, whatever the request holds. createdAt is the first
  reading of the clock and updatedAt the second: the handler evaluates
  \<^verbatim>\<open>new Date().toISOString()\<close> once for each, so the two are equal only when both
  readings fall in the same millisecond.
\<close>

theorem create_builds_record:
  assumes "JSON_parse env (body e) = Inr b"
      and "truthy (field b ''userID'')" and "truthy (field b ''title'')"
      and "send_error env = None" and "db ''todos'' = Some rows"
  shows "\<exists>item.
           createTodo env db e =
             (\<lparr>statusCode = 200, headers = None, body_text = JObj item\<rparr>,
              db(''todos'' \<mapsto> filter (\<lambda>r. item_key r \<noteq> item_key item) rows @ [item])) \<and>
           map_of item ''userID'' = Some (field b ''userID'') \<and>
           map_of item ''taskID'' = Some (JStr (randomUUID env)) \<and>
           map_of item ''title'' = Some (field b ''title'') \<and>
           map_of item ''description'' =
             (if field b ''description'' = JUndefined then None else Some (field b ''description'')) \<and>
           map_of item ''status'' = Some (JStr ''pending'') \<and>
           map_of item ''createdAt'' = Some (JStr (clock env 0)) \<and>
           map_of item ''updatedAt'' = Some (JStr (clock env 1))"
proof -
  let ?raw = "create_item env (field b ''userID'') (field b ''title'') (field b ''description'')"
  let ?item = "marshall ?raw"
  have r: "createTodo env db e =
             (\<lparr>statusCode = 200, headers = None, body_text = JObj ?item\<rparr>,
              db(''todos'' \<mapsto> filter (\<lambda>r. item_key r \<noteq> item_key ?item) rows @ [?item]))"
    by (simp add: createTodo_sent [where db = db and rows = rows, OF assms] reply_def JSON_stringify_def
          put_item_def marshall_def)
  have m: "map_of ?item ''userID'' = Some (field b ''userID'')"
          "map_of ?item ''taskID'' = Some (JStr (randomUUID env))"
          "map_of ?item ''title'' = Some (field b ''title'')"
          "map_of ?item ''description'' =
             (if field b ''description'' = JUndefined then None else Some (field b ''description''))"
          "map_of ?item ''status'' = Some (JStr ''pending'')"
          "map_of ?item ''createdAt'' = Some (JStr (clock env 0))"
          "map_of ?item ''updatedAt'' = Some (JStr (clock env 1))"
    by (simp_all add: marshall_create_item [OF assms(2,3)])
  from r m show ?thesis
    by blast
qed

theorem create_builds_record_witness:
  "JSON_parse sample_env (body create_event) =
     Inr (JObj [(''userID'', JStr ''maria123''), (''title'', JStr ''Buy groceries''),
                (''description'', JStr ''Milk, eggs, bread'')]) \<and>
   send_error sample_env = None \<and> empty_db ''todos'' = Some [] \<and>
   (\<exists>item.
      createTodo sample_env empty_db create_event =
        (\<lparr>statusCode = 200, headers = None, body_text = JObj item\<rparr>, empty_db(''todos'' \<mapsto> [item])) \<and>
      map_of item ''userID'' = Some (JStr ''maria123'') \<and>
      map_of item ''taskID'' = Some (JStr ''task-001'') \<and>
      map_of item ''title'' = Some (JStr ''Buy groceries'') \<and>
      map_of item ''description'' = Some (JStr ''Milk, eggs, bread'') \<and>
      map_of item ''status'' = Some (JStr ''pending''))"
proof -
  let ?b = "JObj [(''userID'', JStr ''maria123''), (''title'', JStr ''Buy groceries''),
                  (''description'', JStr ''Milk, eggs, bread'')]"
  have p: "JSON_parse sample_env (body create_event) = Inr ?b"
    by (simp add: sample_env_def create_event_def sample_parse_def)
  have u: "truthy (field ?b ''userID'')" and t: "truthy (field ?b ''title'')"
    by (simp_all add: field_def)
  have f: "send_error sample_env = None"
    by (simp add: sample_env_def)
  have d: "empty_db ''todos'' = Some []"
    by (simp add: empty_db_def)
  from create_builds_record [where db = empty_db and rows = "[]", OF p u t f d]
  obtain item where
    "createTodo sample_env empty_db create_event =
       (\<lparr>statusCode = 200, headers = None, body_text = JObj item\<rparr>,
        empty_db(''todos'' \<mapsto> filter (\<lambda>r. item_key r \<noteq> item_key item) [] @ [item]))"
    "map_of item ''userID'' = Some (field ?b ''userID'')"
    "map_of item ''taskID'' = Some (JStr (randomUUID sample_env))"
    "map_of item ''title'' = Some (field ?b ''title'')"
    "map_of item ''description'' =
       (if field ?b ''description'' = JUndefined then None else Some (field ?b ''description''))"
    "map_of item ''status'' = Some (JStr ''pending'')"
    by blast
  then have "\<exists>item.
      createTodo sample_env empty_db create_event =
        (\<lparr>statusCode = 200, headers = None, body_text = JObj item\<rparr>, empty_db(''todos'' \<mapsto> [item])) \<and>
      map_of item ''userID'' = Some (JStr ''maria123'') \<and>
      map_of item ''taskID'' = Some (JStr ''task-001'') \<and>
      map_of item ''title'' = Some (JStr ''Buy groceries'') \<and>
      map_of item ''description'' = Some (JStr ''Milk, eggs, bread'') \<and>
      map_of item ''status'' = Some (JStr ''pending'')"
    by (simp add: field_def sample_env_def)
  with p f d show ?thesis
    by blast
qed

text \<open>
  C4 as stated fails: when the clock passes a millisecond boundary between the two
  readings, the record created has a createdAt that differs from its updatedAt.
\<close>

theorem create_timestamps_counterexample:
  "createTodo sample_env empty_db create_event =
     (\<lparr>statusCode = 200, headers = None, body_text = JObj sample_item\<rparr>, sample_db) \<and>
   map_of sample_item ''createdAt'' \<noteq> map_of sample_item ''updatedAt''"
  by (simp add: createTodo_def create_try_def create_item_def sample_defs run_defs)

subsection \<open>When the store call fails\<close>

lemma get_try_valid:
  "truthy (owner_param e) \<Longrightarrow>
   get_try env db e =
     then_do (send env db (Some ''todos'') (\<lambda>rows. (query_items rows (owner_param e), rows)))
       (\<lambda>(items, db'). Inr (reply_json 200 (JArr (map JObj items)), db'))"
  by (simp add: get_try_def owner_param_def Let_def)

lemma delete_try_valid:
  "truthy (param (pathParameters e) ''userID'') \<Longrightarrow> truthy (param (pathParameters e) ''taskID'') \<Longrightarrow>
   delete_try env db e =
     then_do (send env db (TABLE_NAME env)
                (\<lambda>rows. delete_item rows (param (pathParameters e) ''userID'', param (pathParameters e) ''taskID'')))
       (\<lambda>(attributes, db').
          if attributes = None
          then Inr (reply 404 (JObj [(''message'',
                      JStr (''Todo with userID '' @ quoted (template_str (param (pathParameters e) ''userID'')) @
                            '' and taskID '' @ quoted (template_str (param (pathParameters e) ''taskID'')) @
                            '' not found''))]), db')
          else Inr (reply 200 (JObj [(''message'',
                      JStr (''Todo '' @ quoted (template_str (param (pathParameters e) ''taskID'')) @
                            '' deleted successfully for user '' @
                            quoted (template_str (param (pathParameters e) ''userID''))))]), db'))"
  by (simp add: delete_try_def Let_def)

text \<open>
  C3, as amended. When the send of a request that passed validation throws, every
  handler answers 500 and leaves the database as it was. The body of getTodos and of
  updateTodo is the fixed message "Internal server error", whatever was thrown. The
  message of createTodo is "Internal server error" followed by the string form of the
  error (\<^verbatim>\<open>"Internal server error" + error\<close>), and the body of deleteTodo carries the
  error's message in its \<^verbatim>\<open>error\<close> property.
\<close>

theorem store_failure_responses:
  assumes "send_error env = Some err"
  shows "(JSON_parse env (body ec) = Inr b \<and> truthy (field b ''userID'') \<and> truthy (field b ''title'') \<longrightarrow>
            createTodo env db ec =
              (\<lparr>statusCode = 500, headers = None,
                body_text = JObj [(''message'', JStr (''Internal server error'' @ error_toString err))]\<rparr>, db)) \<and>
         (truthy (owner_param eg) \<longrightarrow>
            getTodos env db eg =
              (\<lparr>statusCode = 500, headers = None,
                body_text = JObj [(''message'', JStr ''Internal server error'')]\<rparr>, db)) \<and>
         (truthy (param (pathParameters eu) ''taskID'') \<and> truthy (owner_param eu) \<and>
          update_body env eu = Inr bu \<and> bu \<noteq> JUndefined \<and> bu \<noteq> JNull \<and> supplied bu \<noteq> [] \<longrightarrow>
            updateTodo env db eu =
              (\<lparr>statusCode = 500, headers = None,
                body_text = JObj [(''message'', JStr ''Internal server error'')]\<rparr>, db)) \<and>
         (truthy (param (pathParameters ed) ''userID'') \<and> truthy (param (pathParameters ed) ''taskID'') \<longrightarrow>
            deleteTodo env db ed =
              (\<lparr>statusCode = 500, headers = None,
                body_text = JObj [(''message'', JStr ''Internal server error while deleting todo''),
                                  (''error'', JStr (error_message err))]\<rparr>, db))"
proof (intro conjI impI)
  assume "JSON_parse env (body ec) = Inr b \<and> truthy (field b ''userID'') \<and> truthy (field b ''title'')"
  then have "create_try env db ec = Inl err"
    using assms by (simp add: create_try_valid send_throws then_do_def)
  then show "createTodo env db ec =
               (\<lparr>statusCode = 500, headers = None,
                 body_text = JObj [(''message'', JStr (''Internal server error'' @ error_toString err))]\<rparr>, db)"
    by (simp add: createTodo_def reply_def JSON_stringify_def)
next
  assume "truthy (owner_param eg)"
  then have "get_try env db eg = Inl err"
    using assms by (simp add: get_try_valid send_throws then_do_def)
  then show "getTodos env db eg =
               (\<lparr>statusCode = 500, headers = None,
                 body_text = JObj [(''message'', JStr ''Internal server error'')]\<rparr>, db)"
    by (simp add: getTodos_def reply_def JSON_stringify_def)
next
  assume "truthy (param (pathParameters eu) ''taskID'') \<and> truthy (owner_param eu) \<and>
          update_body env eu = Inr bu \<and> bu \<noteq> JUndefined \<and> bu \<noteq> JNull \<and> supplied bu \<noteq> []"
  then have "update_try env db eu = Inl err"
    using assms by (simp add: update_try_decoded [where b = bu] send_throws then_do_def)
  then show "updateTodo env db eu =
               (\<lparr>statusCode = 500, headers = None,
                 body_text = JObj [(''message'', JStr ''Internal server error'')]\<rparr>, db)"
    by (simp add: updateTodo_def reply_def JSON_stringify_def)
next
  assume "truthy (param (pathParameters ed) ''userID'') \<and> truthy (param (pathParameters ed) ''taskID'')"
  then have "delete_try env db ed = Inl err"
    using assms by (simp add: delete_try_valid send_throws then_do_def)
  then show "deleteTodo env db ed =
               (\<lparr>statusCode = 500, headers = None,
                 body_text = JObj [(''message'', JStr ''Internal server error while deleting todo''),
                                   (''error'', JStr (error_message err))]\<rparr>, db)"
    by (simp add: deleteTodo_def reply_def JSON_stringify_def)
qed

theorem store_failure_responses_witness:
  "send_error (sample_env\<lparr>send_error := Some (JsError ''ThrottlingException'' ''Rate exceeded'')\<rparr>) =
     Some (JsError ''ThrottlingException'' ''Rate exceeded'') \<and>
   createTodo (sample_env\<lparr>send_error := Some (JsError ''ThrottlingException'' ''Rate exceeded'')\<rparr>)
       sample_db create_event =
     (\<lparr>statusCode = 500, headers = None,
       body_text = JObj [(''message'', JStr ''Internal server errorThrottlingException: Rate exceeded'')]\<rparr>,
      sample_db) \<and>
   getTodos (sample_env\<lparr>send_error := Some (JsError ''ThrottlingException'' ''Rate exceeded'')\<rparr>)
       sample_db get_event =
     (\<lparr>statusCode = 500, headers = None,
       body_text = JObj [(''message'', JStr ''Internal server error'')]\<rparr>, sample_db) \<and>
   updateTodo (sample_env\<lparr>send_error := Some (JsError ''ThrottlingException'' ''Rate exceeded'')\<rparr>)
       sample_db update_event =
     (\<lparr>statusCode = 500, headers = None,
       body_text = JObj [(''message'', JStr ''Internal server error'')]\<rparr>, sample_db) \<and>
   deleteTodo (sample_env\<lparr>send_error := Some (JsError ''ThrottlingException'' ''Rate exceeded'')\<rparr>)
       sample_db delete_event =
     (\<lparr>statusCode = 500, headers = None,
       body_text = JObj [(''message'', JStr ''Internal server error while deleting todo''),
                         (''error'', JStr ''Rate exceeded'')]\<rparr>, sample_db)"
proof -
  let ?err = "JsError ''ThrottlingException'' ''Rate exceeded''"
  let ?env = "sample_env\<lparr>send_error := Some ?err\<rparr>"
  let ?b = "JObj [(''userID'', JStr ''maria123''), (''title'', JStr ''Buy groceries''),
                  (''description'', JStr ''Milk, eggs, bread'')]"
  let ?bu = "JObj [(''status'', JStr ''completed'')]"
  have f: "send_error ?env = Some ?err"
    by simp
  have c: "JSON_parse ?env (body create_event) = Inr ?b \<and> truthy (field ?b ''userID'') \<and>
           truthy (field ?b ''title'')"
    by (simp add: sample_env_def create_event_def sample_parse_def field_def)
  have g: "truthy (owner_param get_event)"
    by (simp add: get_event_def owner_param_def param_def js_or_def)
  have u: "truthy (param (pathParameters update_event) ''taskID'') \<and> truthy (owner_param update_event) \<and>
           update_body ?env update_event = Inr ?bu \<and> ?bu \<noteq> JUndefined \<and> ?bu \<noteq> JNull \<and>
           supplied ?bu \<noteq> []"
    by (simp add: update_event_def owner_param_def param_def js_or_def update_body_def supplied_def field_def)
  have d: "truthy (param (pathParameters delete_event) ''userID'') \<and>
           truthy (param (pathParameters delete_event) ''taskID'')"
    by (simp add: delete_event_def param_def)
  note w = store_failure_responses [OF f, where db = sample_db and ec = create_event and b = ?b
             and eg = get_event and eu = update_event and bu = ?bu and ed = delete_event]
  from w [THEN conjunct1, THEN mp, OF c]
  have 1: "createTodo ?env sample_db create_event =
     (\<lparr>statusCode = 500, headers = None,
       body_text = JObj [(''message'', JStr ''Internal server errorThrottlingException: Rate exceeded'')]\<rparr>,
      sample_db)"
    by (simp add: error_toString_def)
  note 2 = w [THEN conjunct2, THEN conjunct1, THEN mp, OF g]
  note 3 = w [THEN conjunct2, THEN conjunct2, THEN conjunct1, THEN mp, OF u]
  from w [THEN conjunct2, THEN conjunct2, THEN conjunct2, THEN mp, OF d]
  have 4: "deleteTodo ?env sample_db delete_event =
     (\<lparr>statusCode = 500, headers = None,
       body_text = JObj [(''message'', JStr ''Internal server error while deleting todo''),
                         (''error'', JStr ''Rate exceeded'')]\<rparr>, sample_db)"
    by simp
  from f 1 2 3 4 show ?thesis
    by blast
qed

text \<open>
  C3 as stated fails: when the send throws a ThrottlingException "Rate exceeded",
  the 500 responses of createTodo and of deleteTodo hold the text "Rate exceeded".
\<close>

theorem store_failure_counterexample:
  "statusCode (fst (createTodo (sample_env\<lparr>send_error := Some (JsError ''ThrottlingException'' ''Rate exceeded'')\<rparr>)
                     empty_db create_event)) = 500 \<and>
   surfaces ''Rate exceeded''
     (fst (createTodo (sample_env\<lparr>send_error := Some (JsError ''ThrottlingException'' ''Rate exceeded'')\<rparr>)
             empty_db create_event)) \<and>
   statusCode (fst (deleteTodo (sample_env\<lparr>send_error := Some (JsError ''ThrottlingException'' ''Rate exceeded'')\<rparr>)
                     sample_db delete_event)) = 500 \<and>
   surfaces ''Rate exceeded''
     (fst (deleteTodo (sample_env\<lparr>send_error := Some (JsError ''ThrottlingException'' ''Rate exceeded'')\<rparr>)
             sample_db delete_event))"
proof -
  have s: "sublist ''Rate exceeded'' (''Internal server errorThrottlingException: '' @ ''Rate exceeded'')"
    by (rule sublist_append_leftI)
  have c: "createTodo (sample_env\<lparr>send_error := Some (JsError ''ThrottlingException'' ''Rate exceeded'')\<rparr>)
             empty_db create_event =
           (\<lparr>statusCode = 500, headers = None,
             body_text = JObj [(''message'', JStr (''Internal server errorThrottlingException: '' @ ''Rate exceeded''))]\<rparr>,
            empty_db)"
    by (simp add: createTodo_def create_try_def create_item_def error_toString_def sample_defs run_defs)
  have d: "deleteTodo (sample_env\<lparr>send_error := Some (JsError ''ThrottlingException'' ''Rate exceeded'')\<rparr>)
             sample_db delete_event =
           (\<lparr>statusCode = 500, headers = None,
             body_text = JObj [(''message'', JStr ''Internal server error while deleting todo''),
                               (''error'', JStr ''Rate exceeded'')]\<rparr>, sample_db)"
    by (simp add: deleteTodo_def delete_try_def sample_defs run_defs)
  show ?thesis
    unfolding c d using s by (simp add: surfaces_def)
qed

subsection \<open>deleteTodo on a present and on an absent key\<close>

lemma deleteTodo_sent:
  assumes "pathParameters e = Some ps" "ps ''userID'' = Some u" "u \<noteq> []" "ps ''taskID'' = Some t" "t \<noteq> []"
      and "send_error env = None" "TABLE_NAME env = Some tn" "db tn = Some rows"
  shows "deleteTodo env db e =
           (if find (\<lambda>r. item_key r = (Some (JStr u), Some (JStr t))) rows = None
            then \<lparr>statusCode = 404, headers = None,
                   body_text = JObj [(''message'',
                     JStr (''Todo with userID '' @ quoted u @ '' and taskID '' @ quoted t @ '' not found''))]\<rparr>
            else \<lparr>statusCode = 200, headers = None,
                   body_text = JObj [(''message'',
                     JStr (''Todo '' @ quoted t @ '' deleted successfully for user '' @ quoted u))]\<rparr>,
            db(tn \<mapsto> filter (\<lambda>r. item_key r \<noteq> (Some (JStr u), Some (JStr t))) rows))"
proof -
  from assms(1-5) have p: "param (pathParameters e) ''userID'' = JStr u"
                          "param (pathParameters e) ''taskID'' = JStr t"
    by (simp_all add: param_def)
  with assms(3,5) have v: "truthy (param (pathParameters e) ''userID'')"
                          "truthy (param (pathParameters e) ''taskID'')"
    by simp_all
  show ?thesis
    using assms(6-8)
    by (simp add: deleteTodo_def delete_try_valid [OF v] p send_ok then_do_def delete_item_def
          template_str_def reply_def JSON_stringify_def)
qed

text \<open>
  C5. For a delete request with a userID and a taskID, when the send does not throw and
  the table named by TABLE_NAME exists: if a record has the key, the answer is 200, its
  message names the taskID and the userID and nothing of the record deleted, no record
  of the table has the key afterwards and every record with another key is still there,
  and the same request sent again is answered 404; if no record has the key, the answer
  is 404 and the database is as before.
\<close>

theorem delete_reports_presence:
  assumes "pathParameters e = Some ps"
      and "ps ''userID'' = Some u" and "u \<noteq> []" and "ps ''taskID'' = Some t" and "t \<noteq> []"
      and "send_error env = None" and "TABLE_NAME env = Some tn" and "db tn = Some rows"
  shows "((\<exists>r \<in> set rows. item_key r = (Some (JStr u), Some (JStr t))) \<longrightarrow>
            deleteTodo env db e =
              (\<lparr>statusCode = 200, headers = None,
                body_text = JObj [(''message'',
                  JStr (''Todo '' @ quoted t @ '' deleted successfully for user '' @ quoted u))]\<rparr>,
               db(tn \<mapsto> filter (\<lambda>r. item_key r \<noteq> (Some (JStr u), Some (JStr t))) rows)) \<and>
            \<not> (\<exists>r \<in> set (filter (\<lambda>r. item_key r \<noteq> (Some (JStr u), Some (JStr t))) rows).
                 item_key r = (Some (JStr u), Some (JStr t))) \<and>
            (\<forall>r \<in> set rows. item_key r \<noteq> (Some (JStr u), Some (JStr t)) \<longrightarrow>
               r \<in> set (filter (\<lambda>r. item_key r \<noteq> (Some (JStr u), Some (JStr t))) rows)) \<and>
            statusCode (fst (deleteTodo env (snd (deleteTodo env db e)) e)) = 404) \<and>
         ((\<forall>r \<in> set rows. item_key r \<noteq> (Some (JStr u), Some (JStr t))) \<longrightarrow>
            deleteTodo env db e =
              (\<lparr>statusCode = 404, headers = None,
                body_text = JObj [(''message'',
                  JStr (''Todo with userID '' @ quoted u @ '' and taskID '' @ quoted t @ '' not found''))]\<rparr>,
               db))"
proof (intro conjI impI)
  let ?k = "(Some (JStr u), Some (JStr t))"
  let ?rows' = "filter (\<lambda>r. item_key r \<noteq> ?k) rows"
  note sent = deleteTodo_sent [OF assms(1-7)]
  {
    assume present: "\<exists>r \<in> set rows. item_key r = ?k"
    then have f: "find (\<lambda>r. item_key r = ?k) rows \<noteq> None"
      by (auto simp: find_None_iff)
    from f show first: "deleteTodo env db e =
              (\<lparr>statusCode = 200, headers = None,
                body_text = JObj [(''message'',
                  JStr (''Todo '' @ quoted t @ '' deleted successfully for user '' @ quoted u))]\<rparr>,
               db(tn \<mapsto> ?rows'))"
      by (simp add: sent [where db = db and rows = rows, OF assms(8)])
    show "\<not> (\<exists>r \<in> set ?rows'. item_key r = ?k)"
      by simp
    show "\<forall>r \<in> set rows. item_key r \<noteq> ?k \<longrightarrow> r \<in> set ?rows'"
      by simp
    have g: "find (\<lambda>r. item_key r = ?k) ?rows' = None"
      by (auto simp: find_None_iff)
    have d: "(db(tn \<mapsto> ?rows')) tn = Some ?rows'"
      by simp
    show "statusCode (fst (deleteTodo env (snd (deleteTodo env db e)) e)) = 404"
      by (simp add: first sent [where db = "db(tn \<mapsto> ?rows')" and rows = ?rows', OF d] g)
  }
  {
    assume absent: "\<forall>r \<in> set rows. item_key r \<noteq> ?k"
    then have f: "find (\<lambda>r. item_key r = ?k) rows = None"
      by (auto simp: find_None_iff)
    from absent have u: "?rows' = rows"
      by (simp add: filter_id_conv)
    from assms(8) have "db(tn \<mapsto> rows) = db"
      by (rule map_upd_triv)
    with f u show "deleteTodo env db e =
              (\<lparr>statusCode = 404, headers = None,
                body_text = JObj [(''message'',
                  JStr (''Todo with userID '' @ quoted u @ '' and taskID '' @ quoted t @ '' not found''))]\<rparr>,
               db)"
      by (simp add: sent [where db = db and rows = rows, OF assms(8)])
  }
qed

theorem delete_reports_presence_witness:
  "send_error sample_env = None \<and> TABLE_NAME sample_env = Some ''todos'' \<and>
   sample_db ''todos'' = Some [sample_item] \<and>
   item_key sample_item = (Some (JStr ''maria123''), Some (JStr ''task-001'')) \<and>
   deleteTodo sample_env sample_db delete_event =
     (\<lparr>statusCode = 200, headers = None,
       body_text = JObj [(''message'',
         JStr (''Todo '' @ quoted ''task-001'' @ '' deleted successfully for user '' @ quoted ''maria123''))]\<rparr>,
      sample_db(''todos'' \<mapsto> [])) \<and>
   statusCode (fst (deleteTodo sample_env (snd (deleteTodo sample_env sample_db delete_event)) delete_event)) = 404 \<and>
   empty_db ''todos'' = Some [] \<and>
   deleteTodo sample_env empty_db delete_event =
     (\<lparr>statusCode = 404, headers = None,
       body_text = JObj [(''message'',
         JStr (''Todo with userID '' @ quoted ''maria123'' @ '' and taskID '' @ quoted ''task-001'' @ '' not found''))]\<rparr>,
      empty_db)"
proof -
  let ?ps = "[''userID'' \<mapsto> ''maria123'', ''taskID'' \<mapsto> ''task-001'']"
  let ?k = "(Some (JStr ''maria123''), Some (JStr ''task-001''))"
  have p: "pathParameters delete_event = Some ?ps"
    by (simp add: delete_event_def)
  have u: "?ps ''userID'' = Some ''maria123''" "''maria123'' \<noteq> []"
    and t: "?ps ''taskID'' = Some ''task-001''" "''task-001'' \<noteq> []"
    by simp_all
  have f: "send_error sample_env = None" and n: "TABLE_NAME sample_env = Some ''todos''"
    by (simp_all add: sample_env_def)
  have d1: "sample_db ''todos'' = Some [sample_item]"
    by (simp add: sample_db_def)
  have d0: "empty_db ''todos'' = Some []"
    by (simp add: empty_db_def)
  have k: "item_key sample_item = ?k"
    by (simp add: item_key_def sample_item_def)
  then have present: "\<exists>r \<in> set [sample_item]. item_key r = ?k"
    by simp
  have absent: "\<forall>r \<in> set []. item_key r \<noteq> ?k"
    by simp
  note w1 = delete_reports_presence [where db = sample_db and rows = "[sample_item]", OF p u t f n d1]
  note w0 = delete_reports_presence [where db = empty_db and rows = "[]", OF p u t f n d0]
  note a = w1 [THEN conjunct1, THEN mp, OF present]
  from a [THEN conjunct1] k
  have 1: "deleteTodo sample_env sample_db delete_event =
     (\<lparr>statusCode = 200, headers = None,
       body_text = JObj [(''message'',
         JStr (''Todo '' @ quoted ''task-001'' @ '' deleted successfully for user '' @ quoted ''maria123''))]\<rparr>,
      sample_db(''todos'' \<mapsto> []))"
    by simp
  note 2 = a [THEN conjunct2, THEN conjunct2, THEN conjunct2]
  note 3 = w0 [THEN conjunct2, THEN mp, OF absent]
  from f n d1 k 1 2 d0 3 show ?thesis
    by blast
qed

subsection \<open>The two names of the owner identifier\<close>

lemma owner_param_alias:
  "truthy (owner_param (e\<lparr>queryStringParameters := Some (q(''userId'' \<mapsto> u, ''userID'' := None))\<rparr>)) = (u \<noteq> [])"
  "truthy (owner_param (e\<lparr>queryStringParameters := Some (q(''userId'' := None, ''userID'' \<mapsto> u))\<rparr>)) = (u \<noteq> [])"
  "u \<noteq> [] \<Longrightarrow> owner_param (e\<lparr>queryStringParameters := Some (q(''userId'' \<mapsto> u, ''userID'' := None))\<rparr>) = JStr u"
  "u \<noteq> [] \<Longrightarrow> owner_param (e\<lparr>queryStringParameters := Some (q(''userId'' := None, ''userID'' \<mapsto> u))\<rparr>) = JStr u"
  by (simp_all add: owner_param_def param_def js_or_def)

lemma get_try_owner:
  "get_try env db e =
     (if \<not> truthy (owner_param e)
      then Inr (reply 400 (JObj [(''message'', JStr ''Missing userId in query parameters'')]), db)
      else then_do (send env db (Some ''todos'') (\<lambda>rows. (query_items rows (owner_param e), rows)))
             (\<lambda>(items, db'). Inr (reply_json 200 (JArr (map JObj items)), db')))"
  by (simp add: get_try_def owner_param_def Let_def)

lemma update_try_owner:
  "update_try env db e =
     (if \<not> truthy (param (pathParameters e) ''taskID'') \<or> \<not> truthy (owner_param e)
      then Inr (reply 400 (JObj [(''message'', JStr ''Missing taskID or userId'')]), db)
      else
        then_do (update_body env e) (\<lambda>b.
        then_do (collect_fields b [''title'', ''description'', ''status''] ([], [], []))
          (\<lambda>(updateExpressions, expressionValues, expressionNames).
             if length updateExpressions = 0
             then Inr (reply 400 (JObj [(''message'', JStr ''No valid fields to update'')]), db)
             else
               then_do (send_update env db
                          \<lparr>TableName = Some ''todos'',
                           Key = (owner_param e, param (pathParameters e) ''taskID''),
                           UpdateExpression = updateExpressions,
                           ExpressionAttributeValues = expressionValues,
                           ExpressionAttributeNames = expressionNames\<rparr>)
                 (\<lambda>(attributes, db'). Inr (reply_json 200 (JObj attributes), db')))))"
  unfolding update_try_def owner_param_def Let_def by (rule refl)

lemma update_try_cong:
  assumes "pathParameters e1 = pathParameters e2" "body e1 = body e2" "owner_param e1 = owner_param e2"
  shows "update_try env db e1 = update_try env db e2"
proof -
  define F where "F pp bd ow =
     (if \<not> truthy (param pp ''taskID'') \<or> \<not> truthy ow
      then Inr (reply 400 (JObj [(''message'', JStr ''Missing taskID or userId'')]), db)
      else
        then_do (case bd of JStr s \<Rightarrow> JSON_parse env (JStr s) | v \<Rightarrow> Inr v) (\<lambda>b.
        then_do (collect_fields b [''title'', ''description'', ''status''] ([], [], []))
          (\<lambda>(updateExpressions, expressionValues, expressionNames).
             if length updateExpressions = 0
             then Inr (reply 400 (JObj [(''message'', JStr ''No valid fields to update'')]), db)
             else
               then_do (send_update env db
                          \<lparr>TableName = Some ''todos'',
                           Key = (ow, param pp ''taskID''),
                           UpdateExpression = updateExpressions,
                           ExpressionAttributeValues = expressionValues,
                           ExpressionAttributeNames = expressionNames\<rparr>)
                 (\<lambda>(attributes, db'). Inr (reply_json 200 (JObj attributes), db')))))"
    for pp bd ow
  have "update_try env db e = F (pathParameters e) (body e) (owner_param e)" for e
    unfolding F_def update_try_owner update_body_def by (rule refl)
  with assms show ?thesis
    by simp
qed

text \<open>
  C6, as amended. getTodos and updateTodo read the owner from the query parameter
  userId and, when that is missing or empty, from userID: a request that carries the
  owner under one of the two names is answered exactly as the request that carries it
  under the other. deleteTodo reads the owner from the path parameter userID only: a
  path parameter userId does not influence its answer.
\<close>

theorem owner_alias_in_query:
  "getTodos env db (e\<lparr>queryStringParameters := Some (q(''userId'' \<mapsto> u, ''userID'' := None))\<rparr>) =
   getTodos env db (e\<lparr>queryStringParameters := Some (q(''userId'' := None, ''userID'' \<mapsto> u))\<rparr>) \<and>
   updateTodo env db (e\<lparr>queryStringParameters := Some (q(''userId'' \<mapsto> u, ''userID'' := None))\<rparr>) =
   updateTodo env db (e\<lparr>queryStringParameters := Some (q(''userId'' := None, ''userID'' \<mapsto> u))\<rparr>) \<and>
   deleteTodo env db (e\<lparr>pathParameters := Some (ps(''userId'' := x))\<rparr>) =
   deleteTodo env db (e\<lparr>pathParameters := Some ps\<rparr>)"
proof (intro conjI)
  show "getTodos env db (e\<lparr>queryStringParameters := Some (q(''userId'' \<mapsto> u, ''userID'' := None))\<rparr>) =
        getTodos env db (e\<lparr>queryStringParameters := Some (q(''userId'' := None, ''userID'' \<mapsto> u))\<rparr>)"
    by (cases "u = []") (simp_all add: getTodos_def get_try_owner owner_param_alias)
  show "updateTodo env db (e\<lparr>queryStringParameters := Some (q(''userId'' \<mapsto> u, ''userID'' := None))\<rparr>) =
        updateTodo env db (e\<lparr>queryStringParameters := Some (q(''userId'' := None, ''userID'' \<mapsto> u))\<rparr>)"
  proof (cases "u = []")
    case True
    then show ?thesis
      by (simp add: updateTodo_def update_try_owner owner_param_alias)
  next
    case False
    then have "update_try env db (e\<lparr>queryStringParameters := Some (q(''userId'' \<mapsto> u, ''userID'' := None))\<rparr>) =
               update_try env db (e\<lparr>queryStringParameters := Some (q(''userId'' := None, ''userID'' \<mapsto> u))\<rparr>)"
      by (intro update_try_cong) (simp_all add: owner_param_alias)
    then show ?thesis
      by (simp add: updateTodo_def)
  qed
  show "deleteTodo env db (e\<lparr>pathParameters := Some (ps(''userId'' := x))\<rparr>) =
        deleteTodo env db (e\<lparr>pathParameters := Some ps\<rparr>)"
    by (simp add: deleteTodo_def delete_try_def param_def)
qed

theorem owner_alias_in_query_witness:
  "getTodos sample_env sample_db get_event =
   getTodos sample_env sample_db
     (get_event\<lparr>queryStringParameters := Some [''userID'' \<mapsto> ''maria123'']\<rparr>) \<and>
   updateTodo sample_env sample_db update_event =
   updateTodo sample_env sample_db
     (update_event\<lparr>queryStringParameters := Some [''userID'' \<mapsto> ''maria123'']\<rparr>) \<and>
   statusCode (fst (getTodos sample_env sample_db get_event)) = 200"
proof -
  have a: "get_event\<lparr>queryStringParameters := Some (Map.empty(''userId'' \<mapsto> ''maria123'', ''userID'' := None))\<rparr> = get_event"
    by (simp add: get_event_def)
  have b: "update_event\<lparr>queryStringParameters := Some (Map.empty(''userId'' \<mapsto> ''maria123'', ''userID'' := None))\<rparr> = update_event"
    by (simp add: update_event_def)
  have c: "Map.empty(''userId'' := None, ''userID'' \<mapsto> ''maria123'') = [''userID'' \<mapsto> ''maria123'']"
    by simp
  note w = owner_alias_in_query [where env = sample_env and db = sample_db and q = Map.empty
             and u = "''maria123''"]
  from w [where e = get_event, THEN conjunct1]
  have 1: "getTodos sample_env sample_db get_event =
           getTodos sample_env sample_db (get_event\<lparr>queryStringParameters := Some [''userID'' \<mapsto> ''maria123'']\<rparr>)"
    unfolding a c .
  from w [where e = update_event, THEN conjunct2, THEN conjunct1]
  have 2: "updateTodo sample_env sample_db update_event =
           updateTodo sample_env sample_db (update_event\<lparr>queryStringParameters := Some [''userID'' \<mapsto> ''maria123'']\<rparr>)"
    unfolding b c .
  have 3: "statusCode (fst (getTodos sample_env sample_db get_event)) = 200"
    by (simp add: getTodos_def get_try_def sample_defs run_defs)
  from 1 2 3 show ?thesis
    by blast
qed

text \<open>
  C6 as stated fails for createTodo and deleteTodo: the create request of the README
  is answered 200 with the owner under userID and 400 with the owner under userId, and
  so is the delete request.
\<close>

theorem owner_alias_counterexample:
  \<open>statusCode (fst (createTodo sample_env empty_db create_event)) = 200 \<and>
   statusCode (fst (createTodo sample_env empty_db
     (create_event\<lparr>body := JStr ''{"userId":"maria123","title":"Buy groceries","description":"Milk, eggs, bread"}''\<rparr>))) = 400 \<and>
   statusCode (fst (deleteTodo sample_env sample_db delete_event)) = 200 \<and>
   statusCode (fst (deleteTodo sample_env sample_db
     (delete_event\<lparr>pathParameters := Some [''userId'' \<mapsto> ''maria123'', ''taskID'' \<mapsto> ''task-001'']\<rparr>))) = 400\<close>
  by (simp add: createTodo_def create_try_def create_item_def deleteTodo_def delete_try_def
        sample_defs run_defs)

subsection \<open>Requests that fail validation\<close>

lemma create_400_keeps_db:
  "statusCode (fst (createTodo env db e)) = 400 \<Longrightarrow> snd (createTodo env db e) = db"
  by (auto simp: createTodo_def create_try_def then_do_def reply_def Let_def
           split: sum.splits if_splits prod.splits)

lemma get_400_keeps_db:
  "statusCode (fst (getTodos env db e)) = 400 \<Longrightarrow> snd (getTodos env db e) = db"
  by (auto simp: getTodos_def get_try_def then_do_def reply_def reply_json_def Let_def
           split: sum.splits if_splits prod.splits)

lemma update_400_keeps_db:
  "statusCode (fst (updateTodo env db e)) = 400 \<Longrightarrow> snd (updateTodo env db e) = db"
  by (auto simp: updateTodo_def update_try_def then_do_def reply_def reply_json_def Let_def
           simp del: collect_fields.simps split: sum.splits if_splits prod.splits)

lemma delete_400_keeps_db:
  "statusCode (fst (deleteTodo env db e)) = 400 \<Longrightarrow> snd (deleteTodo env db e) = db"
  by (auto simp: deleteTodo_def delete_try_def then_do_def reply_def Let_def
           split: sum.splits if_splits prod.splits)

lemma create_rejects:
  assumes "JSON_parse env (body e) = Inr b"
      and "\<not> truthy b \<or> \<not> truthy (field b ''userID'') \<or> \<not> truthy (field b ''title'')"
  shows "statusCode (fst (createTodo env db e)) = 400"
proof (cases "truthy b")
  case True
  then have g: "get_prop b key = Inr (field b key)" for key
    using truthy_not_null [of b] by (simp add: get_prop_field)
  from assms True show ?thesis
    by (auto simp: createTodo_def create_try_def then_do_def g reply_def)
next
  case False
  with assms(1) show ?thesis
    by (simp add: createTodo_def create_try_def then_do_def reply_def)
qed

lemma get_rejects: "\<not> truthy (owner_param e) \<Longrightarrow> statusCode (fst (getTodos env db e)) = 400"
  by (simp add: getTodos_def get_try_owner reply_def)

lemma update_rejects_ids:
  "\<not> truthy (param (pathParameters e) ''taskID'') \<or> \<not> truthy (owner_param e) \<Longrightarrow>
   statusCode (fst (updateTodo env db e)) = 400"
  by (auto simp: updateTodo_def update_try_owner reply_def)

lemma update_rejects_fields:
  assumes "truthy (param (pathParameters e) ''taskID'')" "truthy (owner_param e)"
      and "update_body env e = Inr b" "b \<noteq> JUndefined" "b \<noteq> JNull" "supplied b = []"
  shows "statusCode (fst (updateTodo env db e)) = 400"
  using assms(6) by (simp add: updateTodo_def update_try_decoded [OF assms(1-5)] reply_def)

lemma delete_rejects:
  "\<not> truthy (param (pathParameters e) ''userID'') \<or> \<not> truthy (param (pathParameters e) ''taskID'') \<Longrightarrow>
   statusCode (fst (deleteTodo env db e)) = 400"
  by (auto simp: deleteTodo_def delete_try_def reply_def)

text \<open>
  C7. A request that fails validation is answered 400 and the database is what it was:
  a create request whose decoded body is falsy or lacks a truthy userID or title, a
  list request without owner, an update request without taskID or owner, an update
  request whose body defines none of title, description and status, and a delete
  request without userID or taskID. More generally no handler answers 400 after a
  store call: whenever the status is 400 the database is unchanged.
\<close>

theorem validation_failure_no_store_call:
  "(JSON_parse env (body ec) = Inr b \<and>
    (\<not> truthy b \<or> \<not> truthy (field b ''userID'') \<or> \<not> truthy (field b ''title'')) \<longrightarrow>
      statusCode (fst (createTodo env db ec)) = 400 \<and> snd (createTodo env db ec) = db) \<and>
   (\<not> truthy (owner_param eg) \<longrightarrow>
      statusCode (fst (getTodos env db eg)) = 400 \<and> snd (getTodos env db eg) = db) \<and>
   (\<not> truthy (param (pathParameters eu) ''taskID'') \<or> \<not> truthy (owner_param eu) \<longrightarrow>
      statusCode (fst (updateTodo env db eu)) = 400 \<and> snd (updateTodo env db eu) = db) \<and>
   (truthy (param (pathParameters ef) ''taskID'') \<and> truthy (owner_param ef) \<and>
    update_body env ef = Inr bf \<and> bf \<noteq> JUndefined \<and> bf \<noteq> JNull \<and> supplied bf = [] \<longrightarrow>
      statusCode (fst (updateTodo env db ef)) = 400 \<and> snd (updateTodo env db ef) = db) \<and>
   (\<not> truthy (param (pathParameters ed) ''userID'') \<or> \<not> truthy (param (pathParameters ed) ''taskID'') \<longrightarrow>
      statusCode (fst (deleteTodo env db ed)) = 400 \<and> snd (deleteTodo env db ed) = db) \<and>
   (statusCode (fst (createTodo env db e)) = 400 \<longrightarrow> snd (createTodo env db e) = db) \<and>
   (statusCode (fst (getTodos env db e)) = 400 \<longrightarrow> snd (getTodos env db e) = db) \<and>
   (statusCode (fst (updateTodo env db e)) = 400 \<longrightarrow> snd (updateTodo env db e) = db) \<and>
   (statusCode (fst (deleteTodo env db e)) = 400 \<longrightarrow> snd (deleteTodo env db e) = db)"
proof (intro conjI impI)
  assume a: "JSON_parse env (body ec) = Inr b \<and>
             (\<not> truthy b \<or> \<not> truthy (field b ''userID'') \<or> \<not> truthy (field b ''title''))"
  then show c: "statusCode (fst (createTodo env db ec)) = 400"
    by (intro create_rejects [where b = b]) simp_all
  then show "snd (createTodo env db ec) = db"
    by (rule create_400_keeps_db)
next
  assume "\<not> truthy (owner_param eg)"
  then show g: "statusCode (fst (getTodos env db eg)) = 400"
    by (rule get_rejects)
  then show "snd (getTodos env db eg) = db"
    by (rule get_400_keeps_db)
next
  assume "\<not> truthy (param (pathParameters eu) ''taskID'') \<or> \<not> truthy (owner_param eu)"
  then show u: "statusCode (fst (updateTodo env db eu)) = 400"
    by (rule update_rejects_ids)
  then show "snd (updateTodo env db eu) = db"
    by (rule update_400_keeps_db)
next
  assume "truthy (param (pathParameters ef) ''taskID'') \<and> truthy (owner_param ef) \<and>
          update_body env ef = Inr bf \<and> bf \<noteq> JUndefined \<and> bf \<noteq> JNull \<and> supplied bf = []"
  then show f: "statusCode (fst (updateTodo env db ef)) = 400"
    by (intro update_rejects_fields [where b = bf]) simp_all
  then show "snd (updateTodo env db ef) = db"
    by (rule update_400_keeps_db)
next
  assume "\<not> truthy (param (pathParameters ed) ''userID'') \<or> \<not> truthy (param (pathParameters ed) ''taskID'')"
  then show d: "statusCode (fst (deleteTodo env db ed)) = 400"
    by (rule delete_rejects)
  then show "snd (deleteTodo env db ed) = db"
    by (rule delete_400_keeps_db)
next
  assume "statusCode (fst (createTodo env db e)) = 400"
  then show "snd (createTodo env db e) = db"
    by (rule create_400_keeps_db)
next
  assume "statusCode (fst (getTodos env db e)) = 400"
  then show "snd (getTodos env db e) = db"
    by (rule get_400_keeps_db)
next
  assume "statusCode (fst (updateTodo env db e)) = 400"
  then show "snd (updateTodo env db e) = db"
    by (rule update_400_keeps_db)
next
  assume "statusCode (fst (deleteTodo env db e)) = 400"
  then show "snd (deleteTodo env db e) = db"
    by (rule delete_400_keeps_db)
qed

theorem validation_failure_no_store_call_witness:
  \<open>statusCode (fst (createTodo sample_env sample_db (create_event\<lparr>body := JStr ''{"userID":"maria123"}''\<rparr>))) = 400 \<and>
   snd (createTodo sample_env sample_db (create_event\<lparr>body := JStr ''{"userID":"maria123"}''\<rparr>)) = sample_db \<and>
   statusCode (fst (getTodos sample_env sample_db (create_event\<lparr>body := JStr ''{"userID":"maria123"}''\<rparr>))) = 400 \<and>
   snd (getTodos sample_env sample_db (create_event\<lparr>body := JStr ''{"userID":"maria123"}''\<rparr>)) = sample_db \<and>
   statusCode (fst (updateTodo sample_env sample_db (create_event\<lparr>body := JStr ''{"userID":"maria123"}''\<rparr>))) = 400 \<and>
   snd (updateTodo sample_env sample_db (create_event\<lparr>body := JStr ''{"userID":"maria123"}''\<rparr>)) = sample_db \<and>
   statusCode (fst (updateTodo sample_env sample_db (update_event\<lparr>body := JStr ''{"priority":"high"}''\<rparr>))) = 400 \<and>
   snd (updateTodo sample_env sample_db (update_event\<lparr>body := JStr ''{"priority":"high"}''\<rparr>)) = sample_db \<and>
   statusCode (fst (deleteTodo sample_env sample_db (create_event\<lparr>body := JStr ''{"userID":"maria123"}''\<rparr>))) = 400 \<and>
   snd (deleteTodo sample_env sample_db (create_event\<lparr>body := JStr ''{"userID":"maria123"}''\<rparr>)) = sample_db\<close>
proof -
  let ?e = \<open>create_event\<lparr>body := JStr ''{"userID":"maria123"}''\<rparr>\<close>
  let ?b = "JObj [(''userID'', JStr ''maria123'')]"
  let ?ef = \<open>update_event\<lparr>body := JStr ''{"priority":"high"}''\<rparr>\<close>
  let ?bf = "JObj [(''priority'', JStr ''high'')]"
  have c: "JSON_parse sample_env (body ?e) = Inr ?b \<and>
           (\<not> truthy ?b \<or> \<not> truthy (field ?b ''userID'') \<or> \<not> truthy (field ?b ''title''))"
    by (simp add: sample_env_def sample_parse_def field_def)
  have g: "\<not> truthy (owner_param ?e)"
    by (simp add: create_event_def owner_param_def param_def js_or_def)
  have u: "\<not> truthy (param (pathParameters ?e) ''taskID'') \<or> \<not> truthy (owner_param ?e)"
    by (simp add: create_event_def param_def)
  have f: "truthy (param (pathParameters ?ef) ''taskID'') \<and> truthy (owner_param ?ef) \<and>
           update_body sample_env ?ef = Inr ?bf \<and> ?bf \<noteq> JUndefined \<and> ?bf \<noteq> JNull \<and> supplied ?bf = []"
    by (simp add: update_event_def owner_param_def param_def js_or_def update_body_def sample_env_def
          sample_parse_def supplied_def field_def)
  have d: "\<not> truthy (param (pathParameters ?e) ''userID'') \<or> \<not> truthy (param (pathParameters ?e) ''taskID'')"
    by (simp add: create_event_def param_def)
  note w = validation_failure_no_store_call [where env = sample_env and db = sample_db and ec = ?e
             and b = ?b and eg = ?e and eu = ?e and ef = ?ef and bf = ?bf and ed = ?e and e = ?e]
  note 1 = w [THEN conjunct1, THEN mp, OF c]
  note 2 = w [THEN conjunct2, THEN conjunct1, THEN mp, OF g]
  note 3 = w [THEN conjunct2, THEN conjunct2, THEN conjunct1, THEN mp, OF u]
  note 4 = w [THEN conjunct2, THEN conjunct2, THEN conjunct2, THEN conjunct1, THEN mp, OF f]
  note 5 = w [THEN conjunct2, THEN conjunct2, THEN conjunct2, THEN conjunct2, THEN conjunct1, THEN mp, OF d]
  from 1 2 3 4 5 show ?thesis
    by blast
qed

subsection \<open>What getTodos lists\<close>
















end
